theory Spec2Isabelle
  imports Main
begin

section \<open>JavaScript values and objects\<close>

text \<open>
  The plugin of \<^verbatim>\<open>src/index.ts\<close> works on plain JavaScript data: option objects, query
  filters, update documents, pipeline stages and stored documents. They are modelled by
  one datatype of values. An object is the list of its own enumerable properties in
  insertion order (the order \<^verbatim>\<open>Object.keys\<close> and the spread syntax follow); a date is
  its time stamp. A member that the language itself provides (a method such as
  \<^verbatim>\<open>toString\<close>, or a prototype object) is written \<open>JBuiltin\<close> with its name.
\<close>

datatype jsval =
    JUndefined
  | JNull
  | JBool bool
  | JNum int
  | JStr string
  | JDate nat
  | JArr "jsval list"
  | JObj "(string \<times> jsval) list"
  | JBuiltin string

type_synonym jsobj = "(string \<times> jsval) list"

text \<open>The value of the own property \<open>k\<close> of an object, \<^verbatim>\<open>undefined\<close> when it has
  none.\<close>

fun obj_get :: "jsobj \<Rightarrow> string \<Rightarrow> jsval" where
  "obj_get [] k = JUndefined"
| "obj_get ((k', v) # ps) k = (if k' = k then v else obj_get ps k)"

text \<open>Whether the object has an own property \<open>k\<close> (its value may be \<^verbatim>\<open>undefined\<close>).\<close>

definition has_own :: "jsobj \<Rightarrow> string \<Rightarrow> bool" where
  "has_own ps k = (k \<in> fst ` set ps)"

text \<open>The names of the members of \<^verbatim>\<open>Object.prototype\<close>, which every object literal
  inherits.\<close>

definition object_prototype :: "string list" where
  "object_prototype =
     [''constructor'', ''__defineGetter__'', ''__defineSetter__'', ''hasOwnProperty'',
      ''__lookupGetter__'', ''__lookupSetter__'', ''isPrototypeOf'', ''propertyIsEnumerable'',
      ''toString'', ''valueOf'', ''__proto__'', ''toLocaleString'']"

text \<open>\<^verbatim>\<open>o[k]\<close> on an object literal: the own property when there is one, else the
  member inherited from \<^verbatim>\<open>Object.prototype\<close>, else \<^verbatim>\<open>undefined\<close>.\<close>

definition obj_read :: "jsobj \<Rightarrow> string \<Rightarrow> jsval" where
  "obj_read ps k =
     (if has_own ps k then obj_get ps k
      else if k \<in> set object_prototype then JBuiltin k
      else JUndefined)"

text \<open>\<^verbatim>\<open>o[k] = v\<close>: an existing property keeps its place, a new one goes last.\<close>

fun obj_set :: "string \<Rightarrow> jsval \<Rightarrow> jsobj \<Rightarrow> jsobj" where
  "obj_set k v [] = [(k, v)]"
| "obj_set k v ((k', v') # ps) = (if k' = k then (k, v) # ps else (k', v') # obj_set k v ps)"

text \<open>The object without its property \<open>k\<close>.\<close>

fun obj_delete :: "string \<Rightarrow> jsobj \<Rightarrow> jsobj" where
  "obj_delete k [] = []"
| "obj_delete k ((k', v) # ps) = (if k' = k then ps else (k', v) # obj_delete k ps)"

text \<open>\<^verbatim>\<open>{...a, ...b}\<close>: the properties of \<open>b\<close> are assigned to a copy of \<open>a\<close> one by one.\<close>

definition obj_assign :: "jsobj \<Rightarrow> jsobj \<Rightarrow> jsobj" where
  "obj_assign a b = fold (\<lambda>(k, v). obj_set k v) b a"

text \<open>Decimal numerals, for the index keys of arrays and strings.\<close>

fun dec :: "nat \<Rightarrow> string" where
  "dec n = (if n < 10 then [char_of (48 + n)] else dec (n div 10) @ [char_of (48 + n mod 10)])"

text \<open>The own enumerable properties a spread \<^verbatim>\<open>...v\<close> copies: those of an object, the
  indexed elements of an array or a string, and nothing for any other value.\<close>

fun own_entries :: "jsval \<Rightarrow> jsobj" where
  "own_entries (JObj ps) = ps"
| "own_entries (JArr vs) = zip (map dec [0..<length vs]) vs"
| "own_entries (JStr s) = zip (map dec [0..<length s]) (map (\<lambda>c. JStr [c]) s)"
| "own_entries _ = []"

text \<open>Member access \<^verbatim>\<open>v?.k\<close> for a fixed name \<open>k\<close> that no built-in prototype provides
  and that is neither an index nor \<^verbatim>\<open>length\<close> (\<^verbatim>\<open>$match\<close>, \<^verbatim>\<open>$set\<close>, \<^verbatim>\<open>default\<close>,
  \<^verbatim>\<open>upsert\<close>): the own property of an object, and \<^verbatim>\<open>undefined\<close> on every other
  value.\<close>

fun member :: "jsval \<Rightarrow> string \<Rightarrow> jsval" where
  "member (JObj ps) k = obj_get ps k"
| "member _ k = JUndefined"

text \<open>
  Member access \<^verbatim>\<open>v?.[k]\<close> for a computed name \<open>k\<close>, which may be any string: the
  optional chaining gives \<^verbatim>\<open>undefined\<close> on \<^verbatim>\<open>undefined\<close> and \<^verbatim>\<open>null\<close>; an object is
  read through its prototype. For a value of another kind (a string, an array, a
  number, ...) the model has its indexed elements, its \<^verbatim>\<open>length\<close> and the members of
  \<^verbatim>\<open>Object.prototype\<close>, but not the methods of the prototype of its own kind; the
  properties below that depend on \<open>js_read\<close> are stated for objects, \<^verbatim>\<open>undefined\<close>
  and \<^verbatim>\<open>null\<close>.
\<close>

fun js_read :: "jsval \<Rightarrow> string \<Rightarrow> jsval" where
  "js_read JUndefined k = JUndefined"
| "js_read JNull k = JUndefined"
| "js_read (JObj ps) k = obj_read ps k"
| "js_read (JArr vs) k =
     (if k = ''length'' then JNum (int (length vs)) else obj_read (own_entries (JArr vs)) k)"
| "js_read (JStr s) k =
     (if k = ''length'' then JNum (int (length s)) else obj_read (own_entries (JStr s)) k)"
| "js_read v k = obj_read [] k"

text \<open>JavaScript's \<^verbatim>\<open>ToBoolean\<close>.\<close>

fun truthy :: "jsval \<Rightarrow> bool" where
  "truthy JUndefined = False"
| "truthy JNull = False"
| "truthy (JBool b) = b"
| "truthy (JNum n) = (n \<noteq> 0)"
| "truthy (JStr s) = (s \<noteq> [])"
| "truthy _ = True"

section \<open>Options of the plugin\<close>

text \<open>
  \<^verbatim>\<open>ParanoiaOptions\<close> declares every key optional. A key of the caller's object is either
  left out, or present; a present key holds a value of its declared type or
  \<^verbatim>\<open>undefined\<close> (\<open>None\<close>), which the spread copies like any other value. The policy
  \<^verbatim>\<open>'All'\<close> is written \<open>All'\<close>.
\<close>

datatype policy = Scope | Default | All'

datatype 'a optional = Omitted | Present "'a option"

record ParanoiaOptions =
  opt_deletedAt :: "bool optional"
  opt_deletedBy :: "bool optional"
  opt_deletedByType :: "string optional"
  opt_activeArchive :: "policy optional"
  opt_deletedField :: "string optional"
  opt_deletedAtField :: "string optional"
  opt_deletedByField :: "string optional"

text \<open>The resolved options \<^verbatim>\<open>opts\<close>; \<open>None\<close> is \<^verbatim>\<open>undefined\<close>.\<close>

record opts =
  deletedAt :: "bool option"
  deletedBy :: "bool option"
  deletedByType :: "string option"
  activeArchive :: "policy option"
  deletedField :: "string option"
  deletedAtField :: "string option"
  deletedByField :: "string option"

text \<open>One key of \<^verbatim>\<open>{ key: dflt, ...options }\<close>.\<close>

fun spread_over :: "'a \<Rightarrow> 'a optional \<Rightarrow> 'a option" where
  "spread_over dflt Omitted = Some dflt"
| "spread_over dflt (Present v) = v"

text \<open>\<^verbatim>\<open>const opts = { deletedAt: true, ..., ...options }\<close> (lines 175--184).\<close>

definition resolve :: "ParanoiaOptions \<Rightarrow> opts" where
  "resolve options =
     \<lparr> deletedAt = spread_over True (opt_deletedAt options),
       deletedBy = spread_over False (opt_deletedBy options),
       deletedByType = spread_over ''ObjectId'' (opt_deletedByType options),
       activeArchive = spread_over Default (opt_activeArchive options),
       deletedField = spread_over ''deleted'' (opt_deletedField options),
       deletedAtField = spread_over ''deletedAt'' (opt_deletedAtField options),
       deletedByField = spread_over ''deletedBy'' (opt_deletedByField options) \<rparr>"

text \<open>The default argument \<^verbatim>\<open>options = {}\<close>.\<close>

definition no_options :: ParanoiaOptions where
  "no_options =
     \<lparr> opt_deletedAt = Omitted, opt_deletedBy = Omitted, opt_deletedByType = Omitted,
       opt_activeArchive = Omitted, opt_deletedField = Omitted, opt_deletedAtField = Omitted,
       opt_deletedByField = Omitted \<rparr>"

text \<open>Truth value of an option in a condition (\<^verbatim>\<open>if (opts.deletedAt)\<close>,
  \<^verbatim>\<open>!opts.deletedField\<close>): \<^verbatim>\<open>undefined\<close>, \<^verbatim>\<open>false\<close> and the empty string are falsy.\<close>

fun enabled :: "bool option \<Rightarrow> bool" where
  "enabled None = False"
| "enabled (Some b) = b"

fun named :: "string option \<Rightarrow> bool" where
  "named None = False"
| "named (Some s) = (s \<noteq> [])"

text \<open>A computed property key \<^verbatim>\<open>[opts.deletedField]\<close>: the string itself, and the
  string \<^verbatim>\<open>"undefined"\<close> for \<^verbatim>\<open>undefined\<close>.\<close>

fun key :: "string option \<Rightarrow> string" where
  "key None = ''undefined''"
| "key (Some s) = s"

section \<open>Schema fields\<close>

text \<open>
  A schema is the object of its path declarations; \<^verbatim>\<open>schema.add(obj)\<close> assigns the
  declarations of \<open>obj\<close> to it. Type constructors are written by their names.
  \<open>Paranoia_schema\<close> is the sequence of \<^verbatim>\<open>schema.add\<close> calls of lines 186--216.
\<close>

definition schema_add :: "jsobj \<Rightarrow> jsobj \<Rightarrow> jsobj" where
  "schema_add schema obj = obj_assign schema obj"

definition deletedByFieldType :: "opts \<Rightarrow> jsobj" where
  "deletedByFieldType os =
     (if deletedByType os = Some ''ObjectId''
      then [(''type'', JStr ''ObjectId''), (''ref'', JStr ''User'')]
      else [(''type'', JStr ''String'')])"

definition Paranoia_schema :: "opts \<Rightarrow> jsobj \<Rightarrow> jsobj" where
  "Paranoia_schema os schema =
     (let s1 = schema_add schema
                 [(key (deletedField os),
                   JObj [(''type'', JStr ''Boolean''), (''default'', JBool False), (''index'', JBool True)])];
          s2 = (if enabled (deletedAt os)
                then schema_add s1
                       [(key (deletedAtField os), JObj [(''type'', JStr ''Date''), (''default'', JNull)])]
                else s1);
          s3 = (if enabled (deletedBy os)
                then schema_add s2
                       [(key (deletedByField os),
                         JObj (obj_assign (deletedByFieldType os) [(''default'', JNull)]))]
                else s2)
      in s3)"

section \<open>Delete-class statics\<close>

text \<open>
  Each static builds its update document and hands over to a method of the model. The
  hand-over is the value of the static: the method called and its three arguments
  (filter or id, update, options; \<^verbatim>\<open>undefined\<close> for an argument that is not passed).
  \<open>now\<close> is the time \<^verbatim>\<open>new Date()\<close> reads.
\<close>

datatype call =
    ModelUpdateOne jsval jsval jsval
  | ModelUpdateMany jsval jsval jsval
  | ModelFindOneAndUpdate jsval jsval jsval
  | ModelFindByIdAndUpdate jsval jsval jsval

text \<open>\<^verbatim>\<open>{ [opts.deletedField]: true, ...(opts.deletedAt && { [opts.deletedAtField]: new Date() }) }\<close>\<close>

definition delete_update :: "opts \<Rightarrow> nat \<Rightarrow> jsobj" where
  "delete_update os now =
     obj_assign [(key (deletedField os), JBool True)]
       (if enabled (deletedAt os) then [(key (deletedAtField os), JDate now)] else [])"

text \<open>\<^verbatim>\<open>{ $set: update }\<close>\<close>

definition set_update :: "jsobj \<Rightarrow> jsval" where
  "set_update u = JObj [(''$set'', JObj u)]"

definition deleteOne :: "opts \<Rightarrow> nat \<Rightarrow> jsval \<Rightarrow> jsval \<Rightarrow> call" where
  "deleteOne os now flt options =
     ModelUpdateOne flt (set_update (delete_update os now)) options"

definition deleteMany :: "opts \<Rightarrow> nat \<Rightarrow> jsval \<Rightarrow> jsval \<Rightarrow> call" where
  "deleteMany os now flt options =
     ModelUpdateMany flt (set_update (delete_update os now)) options"

definition findOneAndDelete :: "opts \<Rightarrow> nat \<Rightarrow> jsval \<Rightarrow> jsval \<Rightarrow> call" where
  "findOneAndDelete os now flt options =
     ModelFindOneAndUpdate flt (set_update (delete_update os now))
       (JObj (obj_assign (own_entries options) [(''new'', JBool False)]))"

definition findByIdAndDelete :: "opts \<Rightarrow> nat \<Rightarrow> jsval \<Rightarrow> jsval \<Rightarrow> call" where
  "findByIdAndDelete os now ident options =
     ModelFindByIdAndUpdate ident (set_update (delete_update os now))
       (JObj (obj_assign (own_entries options) [(''new'', JBool False)]))"

section \<open>Queries, query helpers and the query middleware\<close>

text \<open>
  What the plugin reads and writes of a mongoose query: the operation it will run (the
  name under which mongoose looks up the \<^verbatim>\<open>pre\<close> hooks), its filter
  (\<^verbatim>\<open>getFilter()\<close>) and the truth value of its \<^verbatim>\<open>_includeDeleted\<close> property, which is
  false on a new query.
\<close>

datatype opkind = Find | FindOne | FindOneAndUpdate | CountDocuments | UpdateOne | UpdateMany

record query =
  qop :: opkind
  conditions :: jsobj
  includeDeleted :: bool

datatype error = Error string | ObjectParameterError

text \<open>
  Mongoose's \<^verbatim>\<open>Query.where(obj)\<close> (a library the plugin calls, not code of this
  repository) merges the conditions of \<open>obj\<close> into the filter, key by key: a key the
  filter does not hold, or holds as \<^verbatim>\<open>null\<close>, takes the new condition; two objects
  are merged in turn; any other condition is overwritten.
\<close>

fun merge_conditions :: "jsobj \<Rightarrow> jsobj \<Rightarrow> jsobj" where
  "merge_conditions to [] = to"
| "merge_conditions to ((k, JObj g) # rest) =
     merge_conditions
       (case obj_get to k of
          JUndefined \<Rightarrow> obj_set k (JObj g) to
        | JNull \<Rightarrow> obj_set k (JObj g) to
        | JObj f \<Rightarrow> obj_set k (JObj (merge_conditions f g)) to
        | _ \<Rightarrow> obj_set k (JObj (merge_conditions [] g)) to)
       rest"
| "merge_conditions to ((k, v) # rest) = merge_conditions (obj_set k v to) rest"

definition where_obj :: "jsobj \<Rightarrow> query \<Rightarrow> query" where
  "where_obj obj q = q\<lparr>conditions := merge_conditions (conditions q) obj\<rparr>"

text \<open>The condition \<^verbatim>\<open>{ $ne: true }\<close>.\<close>

definition ne_true :: jsval where
  "ne_true = JObj [(''$ne'', JBool True)]"

text \<open>The query helpers of lines 252--282.\<close>

definition active :: "opts \<Rightarrow> query \<Rightarrow> error + query" where
  "active os q =
     (if \<not> named (deletedField os)
      then Inl (Error ''deletedField is required for active query helper'')
      else Inr (where_obj [(key (deletedField os), ne_true)] q))"

definition deleted :: "opts \<Rightarrow> query \<Rightarrow> error + query" where
  "deleted os q =
     (if \<not> named (deletedField os)
      then Inl (Error ''deletedField is required for deleted query helper'')
      else Inr (where_obj [(key (deletedField os), JBool True)] q))"

definition withDeleted :: "query \<Rightarrow> query" where
  "withDeleted q = q\<lparr>includeDeleted := True\<rparr>"

text \<open>The body of \<^verbatim>\<open>queryMiddleware\<close> (lines 287--303), with the query as \<^verbatim>\<open>this\<close>.
  The filter is an object literal, and \<^verbatim>\<open>filter[opts.deletedField]\<close> reads it through
  its prototype.\<close>

definition queryMiddleware :: "opts \<Rightarrow> query \<Rightarrow> query" where
  "queryMiddleware os q =
     (if includeDeleted q then q
      else if \<not> named (deletedField os) then q
      else if obj_read (conditions q) (key (deletedField os)) = JUndefined
           then where_obj [(key (deletedField os), ne_true)] q
           else q)"

text \<open>The operations \<^verbatim>\<open>queryMiddleware\<close> is registered for (lines 285, 305--308).\<close>

definition query_hooks :: "opts \<Rightarrow> opkind list" where
  "query_hooks os =
     (if activeArchive os = Some Default
      then [Find, FindOne, FindOneAndUpdate, CountDocuments]
      else [])"

text \<open>Mongoose runs the hooks registered for a query's operation before it executes it.\<close>

definition run_pre :: "opts \<Rightarrow> query \<Rightarrow> query" where
  "run_pre os q = (if qop q \<in> set (query_hooks os) then queryMiddleware os q else q)"

section \<open>The aggregate middleware\<close>

text \<open>An aggregate: its pipeline and the truth value of its \<^verbatim>\<open>_includeDeleted\<close> property.\<close>

record aggregate =
  pipeline :: "jsval list"
  agg_includeDeleted :: bool

text \<open>\<^verbatim>\<open>pipeline[0]\<close>: \<^verbatim>\<open>undefined\<close> on an empty pipeline.\<close>

fun firstStage :: "jsval list \<Rightarrow> jsval" where
  "firstStage [] = JUndefined"
| "firstStage (s # rest) = s"

text \<open>\<^verbatim>\<open>firstStage?.$match?.[opts.deletedField] !== undefined\<close>\<close>

definition hasDeletedFilter :: "opts \<Rightarrow> jsval list \<Rightarrow> bool" where
  "hasDeletedFilter os p =
     (js_read (member (firstStage p) ''$match'') (key (deletedField os)) \<noteq> JUndefined)"

text \<open>A \<^verbatim>\<open>$match\<close> operand as a pipeline stage has it: a filter object, or none.\<close>

fun filter_operand :: "jsval \<Rightarrow> bool" where
  "filter_operand (JObj m) = True"
| "filter_operand JUndefined = True"
| "filter_operand JNull = True"
| "filter_operand _ = False"

definition match_stage :: "opts \<Rightarrow> jsval" where
  "match_stage os = JObj [(''$match'', JObj [(key (deletedField os), ne_true)])]"

text \<open>The hook of lines 313--334; \<^verbatim>\<open>unshift\<close> puts the stage first.\<close>

definition aggregateMiddleware :: "opts \<Rightarrow> aggregate \<Rightarrow> aggregate" where
  "aggregateMiddleware os a =
     (if agg_includeDeleted a then a
      else if \<not> named (deletedField os) then a
      else if \<not> hasDeletedFilter os (pipeline a)
           then a\<lparr>pipeline := match_stage os # pipeline a\<rparr>
           else a)"

definition run_pre_aggregate :: "opts \<Rightarrow> aggregate \<Rightarrow> aggregate" where
  "run_pre_aggregate os a =
     (if activeArchive os = Some Default then aggregateMiddleware os a else a)"

section \<open>Restore\<close>

text \<open>The instance method (lines 338--347): the assignments to the document, which
  \<^verbatim>\<open>save()\<close> then persists.\<close>

definition restore_document :: "opts \<Rightarrow> jsobj \<Rightarrow> jsobj" where
  "restore_document os doc =
     (let d1 = obj_set (key (deletedField os)) (JBool False) doc;
          d2 = (if enabled (deletedAt os) then obj_set (key (deletedAtField os)) JNull d1 else d1);
          d3 = (if enabled (deletedBy os) then obj_set (key (deletedByField os)) JNull d2 else d2)
      in d3)"

text \<open>The static (lines 350--362).\<close>

definition restore_update :: "opts \<Rightarrow> jsobj" where
  "restore_update os =
     (let u1 = [(key (deletedField os), JBool False)];
          u2 = (if enabled (deletedAt os) then obj_set (key (deletedAtField os)) JNull u1 else u1);
          u3 = (if enabled (deletedBy os) then obj_set (key (deletedByField os)) JNull u2 else u2)
      in u3)"

definition restore_filter :: "opts \<Rightarrow> jsval \<Rightarrow> jsobj" where
  "restore_filter os flt = obj_assign (own_entries flt) [(key (deletedField os), JBool True)]"

definition restore :: "opts \<Rightarrow> jsval \<Rightarrow> call" where
  "restore os flt =
     ModelUpdateMany (JObj (restore_filter os flt)) (set_update (restore_update os))
       JUndefined"

section \<open>The store behind the model\<close>

text \<open>
  The plugin hands every operation over to mongoose and the document store. This
  section states what the theory takes from them, and no more than the properties below
  use. A collection is the list of its documents. A filter is the conjunction of its
  top-level conditions. Two conditions are read here: \<^verbatim>\<open>{ k: true }\<close> holds of a document
  whose field \<open>k\<close> is \<^verbatim>\<open>true\<close>, and \<^verbatim>\<open>{ k: { $ne: true } }\<close> holds of a document whose
  field \<open>k\<close> is anything else or missing (fields hold scalars, as the Boolean path the
  plugin declares does). Everything else is left to the store, as the parameter \<open>sem\<close>:
  \<open>holds sem k c d\<close> says whether the store finds that the condition \<open>c\<close> on \<open>k\<close>
  holds of the document \<open>d\<close>, and \<open>seed sem f\<close> is the document an upsert with the
  filter \<open>f\<close> starts from (its identifier, the fields the filter fixes, defaults). The
  properties hold for every \<open>sem\<close>.
\<close>

type_synonym store = "jsobj list"

record sem =
  holds :: "string \<Rightarrow> jsval \<Rightarrow> jsobj \<Rightarrow> bool"
  seed :: "jsobj \<Rightarrow> jsobj"

text \<open>One such store, used in the examples: a condition that is a plain value holds of
  a document whose field equals it, and an upsert starts from the plain values of the
  filter.\<close>

fun plain :: "jsval \<Rightarrow> bool" where
  "plain (JObj g) = False"
| "plain v = True"

definition eq_sem :: sem where
  "eq_sem = \<lparr> holds = (\<lambda>k c d. obj_get d k = c), seed = filter (\<lambda>e. plain (snd e)) \<rparr>"

definition cond_holds :: "sem \<Rightarrow> jsobj \<Rightarrow> string \<times> jsval \<Rightarrow> bool" where
  "cond_holds sem d e =
     (if snd e = JBool True then obj_get d (fst e) = JBool True
      else if snd e = ne_true then obj_get d (fst e) \<noteq> JBool True
      else holds sem (fst e) (snd e) d)"

definition matches :: "sem \<Rightarrow> jsobj \<Rightarrow> jsobj \<Rightarrow> bool" where
  "matches sem f d = list_all (cond_holds sem d) f"

text \<open>Mongoose takes an object as a filter, reads a missing filter as the empty one
  and rejects any other value.\<close>

fun filter_of :: "jsval \<Rightarrow> error + jsobj" where
  "filter_of (JObj f) = Inr f"
| "filter_of JUndefined = Inr []"
| "filter_of JNull = Inr []"
| "filter_of _ = Inl ObjectParameterError"

definition new_query :: "opkind \<Rightarrow> jsobj \<Rightarrow> query" where
  "new_query k f = \<lparr>qop = k, conditions = f, includeDeleted = False\<rparr>"

text \<open>An update \<^verbatim>\<open>{ $set: u }\<close> assigns the fields of \<open>u\<close> to the document.\<close>

definition apply_update :: "jsval \<Rightarrow> jsobj \<Rightarrow> jsobj" where
  "apply_update u d = obj_assign d (own_entries (member u ''$set''))"

fun update_first :: "('a \<Rightarrow> bool) \<Rightarrow> ('a \<Rightarrow> 'a) \<Rightarrow> 'a list \<Rightarrow> 'a list" where
  "update_first P g [] = []"
| "update_first P g (x # xs) = (if P x then g x # xs else x # update_first P g xs)"

text \<open>What an operation gives back: a document or \<^verbatim>\<open>null\<close>, or the counts
  \<^verbatim>\<open>matchedCount\<close>, \<^verbatim>\<open>modifiedCount\<close> and \<^verbatim>\<open>upsertedCount\<close> of a write.\<close>

datatype result = ResDoc jsval | ResWrite nat nat nat

text \<open>
  Two things are read from the options of a call. The store inserts a document when
  nothing matches and \<^verbatim>\<open>upsert\<close> is \<^verbatim>\<open>true\<close>. And \<^verbatim>\<open>findOneAndUpdate\<close> gives back the
  document as it was, or as it is after the update: mongoose turns \<^verbatim>\<open>new\<close>, when the
  options hold it, into \<^verbatim>\<open>returnDocument\<close>, then does the same with
  \<^verbatim>\<open>returnOriginal\<close>, when the options hold it, and the updated document is returned
  for \<^verbatim>\<open>returnDocument: 'after'\<close>. Mongoose reads more options than these (a sort
  order, a projection, ...), which the model leaves out; a property below that depends
  on what the options do is stated for a call without options of the caller's.
\<close>

definition upsert :: "jsval \<Rightarrow> bool" where
  "upsert options = (member options ''upsert'' = JBool True)"

definition returns_updated :: "jsval \<Rightarrow> bool" where
  "returns_updated options =
     (let ps = own_entries options
      in if has_own ps ''returnOriginal'' then \<not> truthy (obj_get ps ''returnOriginal'')
         else if has_own ps ''new'' then truthy (obj_get ps ''new'')
         else obj_get ps ''returnDocument'' = JStr ''after'')"

text \<open>
  The four model methods the statics call. Each builds the query of its operation, runs
  the hooks registered for it, and executes on the filter the hooks leave.
  \<^verbatim>\<open>updateOne\<close> and \<^verbatim>\<open>findOneAndUpdate\<close> change the first document that matches,
  \<^verbatim>\<open>updateMany\<close> all of them; when none matches, an upsert adds the updated seed
  document to the collection; \<^verbatim>\<open>findByIdAndUpdate(id, ...)\<close> is
  \<^verbatim>\<open>findOneAndUpdate({ _id: id }, ...)\<close>.
\<close>

definition exec_updateOne ::
    "sem \<Rightarrow> opts \<Rightarrow> jsobj \<Rightarrow> jsval \<Rightarrow> jsval \<Rightarrow> store \<Rightarrow> result \<times> store" where
  "exec_updateOne sem os f u options st =
     (let c = conditions (run_pre os (new_query UpdateOne f))
      in case find (matches sem c) st of
           None \<Rightarrow> (if upsert options
                    then (ResWrite 0 0 1, st @ [apply_update u (seed sem c)])
                    else (ResWrite 0 0 0, st))
         | Some d \<Rightarrow> (ResWrite 1 (if apply_update u d = d then 0 else 1) 0,
                       update_first (matches sem c) (apply_update u) st))"

definition exec_updateMany ::
    "sem \<Rightarrow> opts \<Rightarrow> jsobj \<Rightarrow> jsval \<Rightarrow> jsval \<Rightarrow> store \<Rightarrow> result \<times> store" where
  "exec_updateMany sem os f u options st =
     (let c = conditions (run_pre os (new_query UpdateMany f))
      in if filter (matches sem c) st = [] \<and> upsert options
         then (ResWrite 0 0 1, st @ [apply_update u (seed sem c)])
         else (ResWrite (length (filter (matches sem c) st))
                        (length (filter (\<lambda>d. matches sem c d \<and> apply_update u d \<noteq> d) st)) 0,
               map (\<lambda>d. if matches sem c d then apply_update u d else d) st))"

definition exec_findOneAndUpdate ::
    "sem \<Rightarrow> opts \<Rightarrow> jsobj \<Rightarrow> jsval \<Rightarrow> jsval \<Rightarrow> store \<Rightarrow> result \<times> store" where
  "exec_findOneAndUpdate sem os f u options st =
     (let c = conditions (run_pre os (new_query FindOneAndUpdate f))
      in case find (matches sem c) st of
           None \<Rightarrow> (if upsert options
                    then (ResDoc (if returns_updated options
                                  then JObj (apply_update u (seed sem c)) else JNull),
                          st @ [apply_update u (seed sem c)])
                    else (ResDoc JNull, st))
         | Some d \<Rightarrow> (ResDoc (JObj (if returns_updated options then apply_update u d else d)),
                       update_first (matches sem c) (apply_update u) st))"

definition on_filter ::
    "jsval \<Rightarrow> (jsobj \<Rightarrow> store \<Rightarrow> result \<times> store) \<Rightarrow> store \<Rightarrow> (error + result) \<times> store" where
  "on_filter flt run st =
     (case filter_of flt of
        Inl e \<Rightarrow> (Inl e, st)
      | Inr f \<Rightarrow> (case run f st of (r, st') \<Rightarrow> (Inr r, st')))"

fun exec_call :: "sem \<Rightarrow> opts \<Rightarrow> call \<Rightarrow> store \<Rightarrow> (error + result) \<times> store" where
  "exec_call sem os (ModelUpdateOne flt u options) st =
     on_filter flt (\<lambda>f. exec_updateOne sem os f u options) st"
| "exec_call sem os (ModelUpdateMany flt u options) st =
     on_filter flt (\<lambda>f. exec_updateMany sem os f u options) st"
| "exec_call sem os (ModelFindOneAndUpdate flt u options) st =
     on_filter flt (\<lambda>f. exec_findOneAndUpdate sem os f u options) st"
| "exec_call sem os (ModelFindByIdAndUpdate ident u options) st =
     on_filter (JObj [(''_id'', ident)]) (\<lambda>f. exec_findOneAndUpdate sem os f u options) st"

text \<open>A read returns the documents that match the filter its hooks leave.\<close>

definition exec_find :: "sem \<Rightarrow> opts \<Rightarrow> query \<Rightarrow> store \<Rightarrow> store" where
  "exec_find sem os q st = filter (matches sem (conditions (run_pre os q))) st"

text \<open>A new document takes the declared default of every path it has no value for.\<close>

definition new_document :: "jsobj \<Rightarrow> jsobj \<Rightarrow> jsobj" where
  "new_document schema doc =
     fold (\<lambda>k d. if obj_get d k = JUndefined
                  then obj_set k (member (obj_get schema k) ''default'') d else d)
       (map fst schema) doc"

text \<open>\<^verbatim>\<open>save()\<close> writes the document over the stored one with its \<^verbatim>\<open>_id\<close>.\<close>

definition save :: "jsobj \<Rightarrow> store \<Rightarrow> store" where
  "save doc st = map (\<lambda>d. if obj_get d ''_id'' = obj_get doc ''_id'' then doc else d) st"

section \<open>Well-formed field names and the invariant of the timestamp\<close>

text \<open>The three logical fields are three fields: the names of the enabled ones differ.\<close>

definition distinct_fields :: "opts \<Rightarrow> bool" where
  "distinct_fields os =
     ((enabled (deletedAt os) \<longrightarrow> key (deletedAtField os) \<noteq> key (deletedField os)) \<and>
      (enabled (deletedBy os) \<longrightarrow> key (deletedByField os) \<noteq> key (deletedField os)) \<and>
      (enabled (deletedAt os) \<and> enabled (deletedBy os) \<longrightarrow>
         key (deletedByField os) \<noteq> key (deletedAtField os)))"

text \<open>\<^verbatim>\<open>v == null\<close>: \<^verbatim>\<open>null\<close> or \<^verbatim>\<open>undefined\<close>.\<close>

fun nullish :: "jsval \<Rightarrow> bool" where
  "nullish JUndefined = True"
| "nullish JNull = True"
| "nullish _ = False"

text \<open>The deletion timestamp of a document is set exactly when its deletion flag is true.\<close>

definition stamp_inv :: "opts \<Rightarrow> jsobj \<Rightarrow> bool" where
  "stamp_inv os d =
     ((\<not> nullish (obj_get d (key (deletedAtField os)))) = (obj_get d (key (deletedField os)) = JBool True))"

text \<open>Nothing is removed from a collection \<open>st\<close> on the way to \<open>st'\<close>: every document of
  \<open>st\<close> is still there, at its place, as it was or with the update \<open>u\<close> applied; \<open>st'\<close>
  may hold more documents after them.\<close>

definition keeps_documents :: "jsval \<Rightarrow> store \<Rightarrow> store \<Rightarrow> bool" where
  "keeps_documents u st st' =
     list_all2 (\<lambda>x y. y = x \<or> y = apply_update u x) st (take (length st) st')"

section \<open>Facts about objects and the merge of conditions\<close>

lemma obj_get_set: "obj_get (obj_set k v ps) k' = (if k' = k then v else obj_get ps k')"
  by (induction ps) auto

lemma obj_get_absent: "k \<notin> fst ` set f \<Longrightarrow> obj_get f k = JUndefined"
  by (induction f) auto

lemma obj_read_own: "obj_get ps k \<noteq> JUndefined \<Longrightarrow> obj_read ps k = obj_get ps k"
  using obj_get_absent[of k ps] by (auto simp: obj_read_def has_own_def)

lemma obj_read_undefined: "obj_read ps k = JUndefined \<Longrightarrow> obj_get ps k = JUndefined"
  using obj_read_own[of ps k] by auto

lemma obj_read_defined_iff:
  "(obj_read ps k \<noteq> JUndefined) =
     (obj_get ps k \<noteq> JUndefined \<or> (\<not> has_own ps k \<and> k \<in> set object_prototype))"
  using obj_get_absent[of k ps] by (auto simp: obj_read_def has_own_def)

lemma obj_read_fresh:
  "\<not> has_own ps k \<Longrightarrow> k \<notin> set object_prototype \<Longrightarrow> obj_read ps k = JUndefined"
  by (simp add: obj_read_def)

lemma obj_assign_single: "obj_assign a [(k, v)] = obj_set k v a"
  by (simp add: obj_assign_def)

lemma list_all_obj_set: "list_all P (obj_set k v ps) = (P (k, v) \<and> list_all P (obj_delete k ps))"
proof (induction ps)
  case Nil
  show ?case by simp
next
  case (Cons p ps)
  obtain k' v' where p: "p = (k', v')" by (cases p)
  show ?case
  proof (cases "k' = k")
    case True
    with p show ?thesis by simp
  next
    case False
    with p Cons show ?thesis by auto
  qed
qed

lemma length_update_first: "length (update_first P g xs) = length xs"
  by (induction xs) auto

lemma merge_ne_true_fresh:
  "obj_get f k = JUndefined \<Longrightarrow> merge_conditions f [(k, ne_true)] = obj_set k ne_true f"
  by (simp add: ne_true_def)


section \<open>Facts about the options and the hooks\<close>

lemma named_resolve:
  "named (deletedField (resolve options)) =
     (opt_deletedField options \<noteq> Present None \<and> opt_deletedField options \<noteq> Present (Some ''''))"
proof (cases "opt_deletedField options")
  case Omitted
  then show ?thesis by (simp add: resolve_def)
next
  case (Present v)
  then show ?thesis by (cases v) (auto simp: resolve_def)
qed

lemma resolve_no_options:
  "resolve no_options =
     \<lparr> deletedAt = Some True, deletedBy = Some False, deletedByType = Some ''ObjectId'',
       activeArchive = Some Default, deletedField = Some ''deleted'',
       deletedAtField = Some ''deletedAt'', deletedByField = Some ''deletedBy'' \<rparr>"
  by (simp add: resolve_def no_options_def)

lemma schema_declares_flag:
  "\<exists>decl. obj_get (Paranoia_schema os schema) (key (deletedField os)) = JObj decl"
  by (simp add: Paranoia_schema_def schema_add_def obj_assign_single obj_get_set Let_def)

lemma hooked_iff:
  "(k \<in> set (query_hooks os)) =
     (activeArchive os = Some Default \<and> k \<in> {Find, FindOne, FindOneAndUpdate, CountDocuments})"
  by (auto simp: query_hooks_def)

lemma updates_not_hooked:
  "run_pre os (new_query UpdateOne f) = new_query UpdateOne f"
  "run_pre os (new_query UpdateMany f) = new_query UpdateMany f"
  by (simp_all add: run_pre_def new_query_def hooked_iff)

lemma middleware_flagged: "includeDeleted q \<Longrightarrow> queryMiddleware os q = q"
  by (simp add: queryMiddleware_def)

lemma middleware_unnamed: "\<not> named (deletedField os) \<Longrightarrow> queryMiddleware os q = q"
  by (simp add: queryMiddleware_def)


lemma middleware_defined:
  "obj_read (conditions q) (key (deletedField os)) \<noteq> JUndefined \<Longrightarrow> queryMiddleware os q = q"
  by (simp add: queryMiddleware_def)

lemma middleware_injects:
  assumes "\<not> includeDeleted q" and "named (deletedField os)"
    and "obj_read (conditions q) (key (deletedField os)) = JUndefined"
  shows "queryMiddleware os q =
           q\<lparr>conditions := obj_set (key (deletedField os)) ne_true (conditions q)\<rparr>"
  using assms by (simp add: queryMiddleware_def where_obj_def merge_ne_true_fresh obj_read_undefined)

section \<open>Properties of the plugin\<close>

subsection \<open>A deletion-flag field without a name\<close>

text \<open>
  Claim C9. When the name of the deletion-flag field resolves to a falsy value (the
  empty string or \<^verbatim>\<open>undefined\<close>), the query helpers \<^verbatim>\<open>active\<close> and \<^verbatim>\<open>deleted\<close> raise
  their error inside the call. Nothing raises earlier or later: the set-up of the schema
  declares a field under the key the name gives, and the query middleware returns
  without touching the query, so the hooks leave every query as it is.
\<close>

theorem unnamed_flag_raises_in_helpers:
  assumes "\<not> named (deletedField os)"
  shows "active os q = Inl (Error ''deletedField is required for active query helper'') \<and>
         deleted os q = Inl (Error ''deletedField is required for deleted query helper'') \<and>
         queryMiddleware os q = q \<and>
         run_pre os q = q \<and>
         (\<exists>decl. obj_get (Paranoia_schema os schema) (key (deletedField os)) = JObj decl)"
  using assms schema_declares_flag[of os schema]
  by (simp add: active_def deleted_def queryMiddleware_def run_pre_def)

theorem unnamed_flag_raises_in_helpers_witness:
  "\<not> named (deletedField (resolve (no_options\<lparr>opt_deletedField := Present (Some '''')\<rparr>))) \<and>
   active (resolve (no_options\<lparr>opt_deletedField := Present (Some '''')\<rparr>)) (new_query Find [])
     = Inl (Error ''deletedField is required for active query helper'') \<and>
   deleted (resolve (no_options\<lparr>opt_deletedField := Present (Some '''')\<rparr>)) (new_query Find [])
     = Inl (Error ''deletedField is required for deleted query helper'') \<and>
   run_pre (resolve (no_options\<lparr>opt_deletedField := Present (Some '''')\<rparr>)) (new_query Find [])
     = new_query Find []"
proof -
  have h: "\<not> named (deletedField (resolve (no_options\<lparr>opt_deletedField := Present (Some '''')\<rparr>)))"
    by (simp add: named_resolve no_options_def)
  from unnamed_flag_raises_in_helpers[OF h, of "new_query Find []" "[]"] h
  show ?thesis by simp
qed

subsection \<open>The helper \<open>withDeleted\<close>\<close>

text \<open>
  Claim C7. \<^verbatim>\<open>withDeleted\<close> sets the include-deleted flag of the query and nothing else:
  the operation and the filter conditions are the caller's. Under a policy other than
  \<open>Default\<close> (\<open>Scope\<close>, \<open>All'\<close>) a read gives the same documents with and without it.
  Under every policy, \<open>Default\<close> included, the hooks leave a query that went through
  \<^verbatim>\<open>withDeleted\<close> as it is, so the read gives the documents that match the caller's own
  filter, deleted or not.
\<close>

theorem withDeleted_sets_only_the_flag:
  "conditions (withDeleted q) = conditions q \<and>
   qop (withDeleted q) = qop q \<and>
   includeDeleted (withDeleted q) \<and>
   (activeArchive os \<noteq> Some Default \<longrightarrow>
      exec_find sem os (withDeleted q) st = exec_find sem os q st) \<and>
   run_pre os (withDeleted q) = withDeleted q \<and>
   exec_find sem os (withDeleted q) st = filter (matches sem (conditions q)) st"
  by (simp add: withDeleted_def exec_find_def run_pre_def hooked_iff queryMiddleware_def)

theorem withDeleted_sets_only_the_flag_witness:
  "activeArchive (resolve (no_options\<lparr>opt_activeArchive := Present (Some Scope)\<rparr>)) \<noteq> Some Default \<and>
   exec_find eq_sem (resolve (no_options\<lparr>opt_activeArchive := Present (Some Scope)\<rparr>))
      (withDeleted (new_query Find []))
      [[(''name'', JStr ''a''), (''deleted'', JBool False)],
       [(''name'', JStr ''b''), (''deleted'', JBool True)]]
     = exec_find eq_sem (resolve (no_options\<lparr>opt_activeArchive := Present (Some Scope)\<rparr>))
         (new_query Find [])
         [[(''name'', JStr ''a''), (''deleted'', JBool False)],
          [(''name'', JStr ''b''), (''deleted'', JBool True)]] \<and>
   exec_find eq_sem (resolve no_options) (withDeleted (new_query Find []))
      [[(''name'', JStr ''a''), (''deleted'', JBool False)],
       [(''name'', JStr ''b''), (''deleted'', JBool True)]]
     = [[(''name'', JStr ''a''), (''deleted'', JBool False)],
        [(''name'', JStr ''b''), (''deleted'', JBool True)]]"
proof -
  have h: "activeArchive (resolve (no_options\<lparr>opt_activeArchive := Present (Some Scope)\<rparr>)) \<noteq> Some Default"
    by (simp add: resolve_def no_options_def)
  have m: "matches eq_sem (conditions (new_query Find [])) = (\<lambda>d. True)"
    by (simp add: matches_def new_query_def fun_eq_iff)
  from h m
    withDeleted_sets_only_the_flag[of "new_query Find []"
      "resolve (no_options\<lparr>opt_activeArchive := Present (Some Scope)\<rparr>)" eq_sem
      "[[(''name'', JStr ''a''), (''deleted'', JBool False)],
        [(''name'', JStr ''b''), (''deleted'', JBool True)]]"]
    withDeleted_sets_only_the_flag[of "new_query Find []" "resolve no_options" eq_sem
      "[[(''name'', JStr ''a''), (''deleted'', JBool False)],
        [(''name'', JStr ''b''), (''deleted'', JBool True)]]"]
  show ?thesis by simp
qed

subsection \<open>The implicit filter of the policy \<open>Default\<close>\<close>

text \<open>
  Claim C2, as the code has it. Under the policy \<open>Default\<close>, the hooks of \<^verbatim>\<open>find\<close>,
  \<^verbatim>\<open>findOne\<close>, \<^verbatim>\<open>findOneAndUpdate\<close> and \<^verbatim>\<open>countDocuments\<close> add the condition
  \<^verbatim>\<open>{ $ne: true }\<close> on the deletion-flag field to the filter of the query, unless
  (a) the query carries the include-deleted flag, or (b) reading the property named by
  the deletion-flag field on the filter object gives a value other than \<^verbatim>\<open>undefined\<close>,
  or (c) the name of the field is falsy (empty or \<^verbatim>\<open>undefined\<close>); in these three cases
  the query is left exactly as it is. Case (b) is that of a filter with a top-level key
  of that name whose value is not \<^verbatim>\<open>undefined\<close>, whatever condition the value is, and
  that of a name every object inherits a member for (such as \<^verbatim>\<open>toString\<close>) on a filter
  without an own key of that name. It is not the case of a condition on the field that
  sits inside another operator: a filter that consists of one operator with a list of
  conditions (\<^verbatim>\<open>$and\<close>, \<^verbatim>\<open>$or\<close>) gets the condition added, whatever the list holds.
\<close>

theorem default_policy_injects:
  assumes "activeArchive os = Some Default"
    and "qop q \<in> {Find, FindOne, FindOneAndUpdate, CountDocuments}"
  shows "run_pre os q =
           (if includeDeleted q \<or> obj_read (conditions q) (key (deletedField os)) \<noteq> JUndefined
               \<or> \<not> named (deletedField os)
            then q
            else q\<lparr>conditions := obj_set (key (deletedField os)) ne_true (conditions q)\<rparr>) \<and>
         (obj_read (conditions q) (key (deletedField os)) \<noteq> JUndefined) =
           (obj_get (conditions q) (key (deletedField os)) \<noteq> JUndefined \<or>
            (\<not> has_own (conditions q) (key (deletedField os)) \<and>
             key (deletedField os) \<in> set object_prototype)) \<and>
         (\<not> includeDeleted q \<and> named (deletedField os) \<and>
          key (deletedField os) \<notin> set object_prototype \<and>
          conditions q = [(opr, JArr cs)] \<and> opr \<noteq> key (deletedField os) \<longrightarrow>
            conditions (run_pre os q) = [(opr, JArr cs), (key (deletedField os), ne_true)])"
proof -
  let ?k = "key (deletedField os)"
  from assms have r: "run_pre os q = queryMiddleware os q"
    by (simp add: run_pre_def hooked_iff)
  have c1: "run_pre os q =
              (if includeDeleted q \<or> obj_read (conditions q) ?k \<noteq> JUndefined \<or> \<not> named (deletedField os)
               then q
               else q\<lparr>conditions := obj_set ?k ne_true (conditions q)\<rparr>)"
    unfolding r
    by (auto simp: middleware_flagged middleware_unnamed middleware_defined middleware_injects)
  have c3: "conditions (run_pre os q) = [(opr, JArr cs), (?k, ne_true)]"
    if "\<not> includeDeleted q" and "named (deletedField os)" and "?k \<notin> set object_prototype"
      and "conditions q = [(opr, JArr cs)]" and "opr \<noteq> ?k"
  proof -
    from that have "obj_read (conditions q) ?k = JUndefined"
      by (simp add: obj_read_fresh has_own_def)
    with that show ?thesis
      unfolding r by (simp add: middleware_injects)
  qed
  from c1 obj_read_defined_iff[of "conditions q" ?k] c3 show ?thesis
    by blast
qed

theorem default_policy_injects_witness:
  "activeArchive (resolve no_options) = Some Default \<and>
   run_pre (resolve no_options) (new_query CountDocuments [(''email'', JStr ''a@b'')])
     = new_query CountDocuments [(''email'', JStr ''a@b''), (''deleted'', JObj [(''$ne'', JBool True)])] \<and>
   run_pre (resolve no_options) (new_query Find [(''deleted'', JObj [(''$in'', JArr [JBool True, JBool False])])])
     = new_query Find [(''deleted'', JObj [(''$in'', JArr [JBool True, JBool False])])] \<and>
   run_pre (resolve no_options) (withDeleted (new_query FindOne []))
     = withDeleted (new_query FindOne []) \<and>
   conditions (run_pre (resolve no_options)
       (new_query Find [(''$or'', JArr [JObj [(''role'', JStr ''admin'')], JObj [(''role'', JStr ''owner'')]])]))
     = [(''$or'', JArr [JObj [(''role'', JStr ''admin'')], JObj [(''role'', JStr ''owner'')]]),
        (''deleted'', JObj [(''$ne'', JBool True)])] \<and>
   activeArchive (resolve (no_options\<lparr>opt_deletedField := Present None\<rparr>)) = Some Default \<and>
   run_pre (resolve (no_options\<lparr>opt_deletedField := Present None\<rparr>)) (new_query FindOneAndUpdate [])
     = new_query FindOneAndUpdate []"
proof -
  let ?os = "resolve no_options"
  let ?ou = "resolve (no_options\<lparr>opt_deletedField := Present None\<rparr>)"
  let ?q1 = "new_query CountDocuments [(''email'', JStr ''a@b'')]"
  let ?q2 = "new_query Find [(''deleted'', JObj [(''$in'', JArr [JBool True, JBool False])])]"
  let ?q3 = "withDeleted (new_query FindOne [])"
  let ?cs = "[JObj [(''role'', JStr ''admin'')], JObj [(''role'', JStr ''owner'')]]"
  let ?q4 = "new_query Find [(''$or'', JArr ?cs)]"
  let ?q5 = "new_query FindOneAndUpdate []"
  have a: "activeArchive ?os = Some Default"
    and b: "activeArchive ?ou = Some Default"
    and n: "\<not> named (deletedField ?ou)"
    and n': "named (deletedField ?os)"
    and kk: "key (deletedField ?os) = ''deleted''"
    by (simp_all add: resolve_def no_options_def)
  have k: "qop ?q1 \<in> {Find, FindOne, FindOneAndUpdate, CountDocuments}"
    "qop ?q2 \<in> {Find, FindOne, FindOneAndUpdate, CountDocuments}"
    "qop ?q3 \<in> {Find, FindOne, FindOneAndUpdate, CountDocuments}"
    "qop ?q4 \<in> {Find, FindOne, FindOneAndUpdate, CountDocuments}"
    "qop ?q5 \<in> {Find, FindOne, FindOneAndUpdate, CountDocuments}"
    by (simp_all add: new_query_def withDeleted_def)
  note t1 = default_policy_injects[OF a k(1), of "''$or''" ?cs]
  note t2 = default_policy_injects[OF a k(2), of "''$or''" ?cs]
  note t3 = default_policy_injects[OF a k(3), of "''$or''" ?cs]
  note t4 = default_policy_injects[OF a k(4), of "''$or''" ?cs]
  note t5 = default_policy_injects[OF b k(5), of "''$or''" ?cs]
  have g1: "\<not> includeDeleted ?q1" "obj_read (conditions ?q1) (key (deletedField ?os)) = JUndefined"
    unfolding kk by (simp_all add: new_query_def obj_read_def has_own_def object_prototype_def)
  have g2: "obj_read (conditions ?q2) (key (deletedField ?os)) \<noteq> JUndefined"
    unfolding kk by (simp add: new_query_def obj_read_def has_own_def)
  have g3: "includeDeleted ?q3"
    by (simp add: withDeleted_def)
  have g4: "\<not> includeDeleted ?q4" "key (deletedField ?os) \<notin> set object_prototype"
    "conditions ?q4 = [(''$or'', JArr ?cs)]" "''$or'' \<noteq> key (deletedField ?os)"
    unfolding kk by (simp_all add: new_query_def object_prototype_def)
  have r1: "run_pre ?os ?q1 = ?q1\<lparr>conditions := obj_set (key (deletedField ?os)) ne_true (conditions ?q1)\<rparr>"
    using t1 g1 n' by simp
  have r2: "run_pre ?os ?q2 = ?q2"
    using t2 g2 by simp
  have r3: "run_pre ?os ?q3 = ?q3"
    using t3 g3 by simp
  have r4: "conditions (run_pre ?os ?q4) = [(''$or'', JArr ?cs), (key (deletedField ?os), ne_true)]"
    using t4 g4 n' by blast
  have r5: "run_pre ?ou ?q5 = ?q5"
    using t5 n by simp
  have e1: "?q1\<lparr>conditions := obj_set (key (deletedField ?os)) ne_true (conditions ?q1)\<rparr>
              = new_query CountDocuments [(''email'', JStr ''a@b''), (''deleted'', JObj [(''$ne'', JBool True)])]"
    unfolding kk by (simp add: new_query_def ne_true_def)
  have e4: "[(''$or'', JArr ?cs), (key (deletedField ?os), ne_true)]
              = [(''$or'', JArr ?cs), (''deleted'', JObj [(''$ne'', JBool True)])]"
    unfolding kk by (simp add: ne_true_def)
  from a b r1[unfolded e1] r2 r3 r4[unfolded e4] r5 show ?thesis
    by blast
qed

text \<open>
  The claim as written, with the cases (a) and (b) only and with (b) as a filter that
  already constrains the field, fails in three ways. For a field without a name the
  hook leaves the empty filter of a plain \<^verbatim>\<open>find\<close> empty. For a field named
  \<^verbatim>\<open>toString\<close> it does the same, though the filter has no condition at all. And the
  filter \<^verbatim>\<open>{ $and: [{ deleted: true }] }\<close>, which constrains the field, is not left as
  the caller supplied it: the condition is added to it.
\<close>

theorem default_policy_injects_counterexample:
  "activeArchive (resolve (no_options\<lparr>opt_deletedField := Present (Some '''')\<rparr>)) = Some Default \<and>
   \<not> includeDeleted (new_query Find []) \<and>
   conditions (run_pre (resolve (no_options\<lparr>opt_deletedField := Present (Some '''')\<rparr>)) (new_query Find []))
     = [] \<and>
   activeArchive (resolve (no_options\<lparr>opt_deletedField := Present (Some ''toString'')\<rparr>)) = Some Default \<and>
   conditions (run_pre (resolve (no_options\<lparr>opt_deletedField := Present (Some ''toString'')\<rparr>))
       (new_query Find []))
     = [] \<and>
   activeArchive (resolve no_options) = Some Default \<and>
   \<not> includeDeleted (new_query Find [(''$and'', JArr [JObj [(''deleted'', JBool True)]])]) \<and>
   conditions (run_pre (resolve no_options)
       (new_query Find [(''$and'', JArr [JObj [(''deleted'', JBool True)]])]))
     = [(''$and'', JArr [JObj [(''deleted'', JBool True)]]), (''deleted'', JObj [(''$ne'', JBool True)])]"
  by (simp add: resolve_def no_options_def new_query_def run_pre_def query_hooks_def
      queryMiddleware_def obj_read_def has_own_def object_prototype_def where_obj_def ne_true_def)

subsection \<open>The implicit stage of an aggregation\<close>

lemma js_read_nullish: "nullish v \<Longrightarrow> js_read v k = JUndefined"
  by (cases v) simp_all

text \<open>
  Claim C4, as the code has it, for a pipeline whose first stage has a filter object as
  its \<^verbatim>\<open>$match\<close> operand, or no such operand (as on an empty pipeline or with another
  stage first). Under the policy \<open>Default\<close> the hook of an aggregation leaves the
  pipeline as it is when the aggregate carries the include-deleted flag or the name of
  the deletion-flag field is falsy. In every other case it looks at the first stage of
  the pipeline only: if reading the property named by the deletion-flag field on the
  \<^verbatim>\<open>$match\<close> operand of that stage gives a value other than \<^verbatim>\<open>undefined\<close>, the pipeline
  stays as it is; otherwise (also on an empty pipeline) a \<^verbatim>\<open>$match\<close> stage with the
  condition \<^verbatim>\<open>{ $ne: true }\<close> is put in front of it. The property is there when the
  operand has a top-level key of that name whose value is not \<^verbatim>\<open>undefined\<close>, and when
  the name is one every object inherits a member for (such as \<^verbatim>\<open>toString\<close>) and the
  operand has no own key of that name. It is not there for a condition on the field
  inside another operator: a first stage \<^verbatim>\<open>{ $match: { $or: [...] } }\<close> gets the new
  stage in front, whatever the list holds. The stages after the first play no part: a
  pipeline whose second stage already is that very \<^verbatim>\<open>$match\<close> gets it a second time,
  in front.
\<close>

theorem aggregate_inspects_first_stage:
  assumes "activeArchive os = Some Default"
    and "filter_operand (member (firstStage (pipeline a)) ''$match'')"
  shows "pipeline (run_pre_aggregate os a) =
           (if agg_includeDeleted a \<or> \<not> named (deletedField os) then pipeline a
            else if js_read (member (firstStage (pipeline a)) ''$match'') (key (deletedField os))
                      \<noteq> JUndefined
                 then pipeline a
                 else match_stage os # pipeline a) \<and>
         (member (firstStage (pipeline a)) ''$match'' = JObj m \<longrightarrow>
            (js_read (member (firstStage (pipeline a)) ''$match'') (key (deletedField os)) \<noteq> JUndefined) =
              (obj_get m (key (deletedField os)) \<noteq> JUndefined \<or>
               (\<not> has_own m (key (deletedField os)) \<and> key (deletedField os) \<in> set object_prototype))) \<and>
         (nullish (member (firstStage (pipeline a)) ''$match'') \<longrightarrow>
            js_read (member (firstStage (pipeline a)) ''$match'') (key (deletedField os)) = JUndefined) \<and>
         (\<not> agg_includeDeleted a \<and> named (deletedField os) \<and>
          key (deletedField os) \<notin> set object_prototype \<and>
          pipeline a = JObj [(''$match'', JObj [(opr, JArr cs)])] # rest \<and>
          opr \<noteq> key (deletedField os) \<longrightarrow>
            pipeline (run_pre_aggregate os a) = match_stage os # pipeline a) \<and>
         hasDeletedFilter os (pipeline a) = hasDeletedFilter os [firstStage (pipeline a)] \<and>
         (\<not> agg_includeDeleted a \<and> named (deletedField os) \<and>
          pipeline a = s # match_stage os # later \<and> \<not> hasDeletedFilter os [s] \<longrightarrow>
            pipeline (run_pre_aggregate os a) = match_stage os # s # match_stage os # later)"
proof -
  let ?k = "key (deletedField os)"
  let ?m = "member (firstStage (pipeline a)) ''$match''"
  have c1: "pipeline (run_pre_aggregate os a) =
              (if agg_includeDeleted a \<or> \<not> named (deletedField os) then pipeline a
               else if js_read ?m ?k \<noteq> JUndefined then pipeline a
               else match_stage os # pipeline a)"
    using assms(1)
    by (simp add: run_pre_aggregate_def aggregateMiddleware_def hasDeletedFilter_def)
  have c2: "?m = JObj m \<Longrightarrow>
              (js_read ?m ?k \<noteq> JUndefined) =
                (obj_get m ?k \<noteq> JUndefined \<or> (\<not> has_own m ?k \<and> ?k \<in> set object_prototype))"
    by (simp add: obj_read_defined_iff)
  have c3: "nullish ?m \<Longrightarrow> js_read ?m ?k = JUndefined"
    by (rule js_read_nullish)
  have c4: "pipeline (run_pre_aggregate os a) = match_stage os # pipeline a"
    if "\<not> agg_includeDeleted a" and "named (deletedField os)" and "?k \<notin> set object_prototype"
      and "pipeline a = JObj [(''$match'', JObj [(opr, JArr cs)])] # rest" and "opr \<noteq> ?k"
  proof -
    from that have "js_read ?m ?k = JUndefined"
      by (simp add: obj_read_fresh has_own_def)
    with that show ?thesis
      unfolding c1 by simp
  qed
  have c5: "hasDeletedFilter os (pipeline a) = hasDeletedFilter os [firstStage (pipeline a)]"
    by (cases "pipeline a") (simp_all add: hasDeletedFilter_def)
  have c6: "pipeline (run_pre_aggregate os a) = match_stage os # s # match_stage os # later"
    if "\<not> agg_includeDeleted a" and "named (deletedField os)"
      and "pipeline a = s # match_stage os # later" and "\<not> hasDeletedFilter os [s]"
    using that unfolding c1 by (simp add: hasDeletedFilter_def)
  from c1 c2 c3 c4 c5 c6 show ?thesis
    by blast
qed

theorem aggregate_inspects_first_stage_witness:
  "activeArchive (resolve no_options) = Some Default \<and>
   named (deletedField (resolve no_options)) \<and>
   pipeline (run_pre_aggregate (resolve no_options)
       \<lparr>pipeline = [JObj [(''$count'', JStr ''total'')]], agg_includeDeleted = False\<rparr>)
     = [JObj [(''$match'', JObj [(''deleted'', JObj [(''$ne'', JBool True)])])],
        JObj [(''$count'', JStr ''total'')]] \<and>
   pipeline (run_pre_aggregate (resolve no_options)
       \<lparr>pipeline = [JObj [(''$match'', JObj [(''deleted'', JBool True)])]], agg_includeDeleted = False\<rparr>)
     = [JObj [(''$match'', JObj [(''deleted'', JBool True)])]] \<and>
   pipeline (run_pre_aggregate (resolve no_options)
       \<lparr>pipeline = [JObj [(''$sort'', JObj [(''name'', JNum 1)])],
                    JObj [(''$match'', JObj [(''deleted'', JObj [(''$ne'', JBool True)])])]],
        agg_includeDeleted = False\<rparr>)
     = [JObj [(''$match'', JObj [(''deleted'', JObj [(''$ne'', JBool True)])])],
        JObj [(''$sort'', JObj [(''name'', JNum 1)])],
        JObj [(''$match'', JObj [(''deleted'', JObj [(''$ne'', JBool True)])])]]"
proof -
  let ?os = "resolve no_options"
  let ?count = "JObj [(''$count'', JStr ''total'')]"
  let ?del = "JObj [(''$match'', JObj [(''deleted'', JBool True)])]"
  let ?sort = "JObj [(''$sort'', JObj [(''name'', JNum 1)])]"
  let ?a1 = "\<lparr>pipeline = [?count], agg_includeDeleted = False\<rparr>"
  let ?a2 = "\<lparr>pipeline = [?del], agg_includeDeleted = False\<rparr>"
  let ?a3 = "\<lparr>pipeline = [?sort, match_stage ?os], agg_includeDeleted = False\<rparr>"
  have a: "activeArchive ?os = Some Default"
    and n: "named (deletedField ?os)"
    and kk: "key (deletedField ?os) = ''deleted''"
    by (simp_all add: resolve_no_options)
  have ms: "match_stage ?os = JObj [(''$match'', JObj [(''deleted'', JObj [(''$ne'', JBool True)])])]"
    by (simp add: match_stage_def ne_true_def resolve_no_options)
  have o: "filter_operand (member (firstStage (pipeline ?a1)) ''$match'')"
    "filter_operand (member (firstStage (pipeline ?a2)) ''$match'')"
    "filter_operand (member (firstStage (pipeline ?a3)) ''$match'')"
    by simp_all
  note t1 = aggregate_inspects_first_stage[OF a o(1), of "[]" "''$or''" "[]" "[]" ?sort "[]"]
  note t2 = aggregate_inspects_first_stage[OF a o(2), of "[]" "''$or''" "[]" "[]" ?sort "[]"]
  note t3 = aggregate_inspects_first_stage[OF a o(3), of "[]" "''$or''" "[]" "[]" ?sort "[]"]
  have g1: "\<not> agg_includeDeleted ?a1"
    "js_read (member (firstStage (pipeline ?a1)) ''$match'') (key (deletedField ?os)) = JUndefined"
    by simp_all
  have g2: "\<not> agg_includeDeleted ?a2"
    "js_read (member (firstStage (pipeline ?a2)) ''$match'') (key (deletedField ?os)) \<noteq> JUndefined"
    unfolding kk by (simp_all add: obj_read_def has_own_def)
  have g3: "\<not> agg_includeDeleted ?a3" "pipeline ?a3 = ?sort # match_stage ?os # []"
    "\<not> hasDeletedFilter ?os [?sort]"
    by (simp_all add: hasDeletedFilter_def)
  have r1: "pipeline (run_pre_aggregate ?os ?a1) = match_stage ?os # pipeline ?a1"
    using t1 g1 n by simp
  have r2: "pipeline (run_pre_aggregate ?os ?a2) = pipeline ?a2"
    using t2 g2 n by simp
  have r3: "pipeline (run_pre_aggregate ?os ?a3) = match_stage ?os # ?sort # match_stage ?os # []"
    using t3 g3 n by blast
  from a n r1 r2 r3 show ?thesis
    unfolding ms by simp
qed

text \<open>
  The claim as written fails where the hook returns early, and where its test and a
  constraint on the field part ways. An aggregate that carries the include-deleted flag
  keeps its pipeline, whatever its first stage is; so does every aggregate when the
  field has no name. With a field named \<^verbatim>\<open>toString\<close>, a first stage
  \<^verbatim>\<open>{ $match: { name: 'John' } }\<close>, which does not constrain that field, counts as if
  it did, and nothing is put in front. And a first stage
  \<^verbatim>\<open>{ $match: { $or: [{ deleted: true }] } }\<close>, which does constrain the field, gets
  the new stage in front all the same.
\<close>

theorem aggregate_inspects_first_stage_counterexample:
  "activeArchive (resolve no_options) = Some Default \<and>
   pipeline (run_pre_aggregate (resolve no_options)
       \<lparr>pipeline = [JObj [(''$count'', JStr ''total'')]], agg_includeDeleted = True\<rparr>)
     = [JObj [(''$count'', JStr ''total'')]] \<and>
   activeArchive (resolve (no_options\<lparr>opt_deletedField := Present (Some '''')\<rparr>)) = Some Default \<and>
   pipeline (run_pre_aggregate (resolve (no_options\<lparr>opt_deletedField := Present (Some '''')\<rparr>))
       \<lparr>pipeline = [JObj [(''$count'', JStr ''total'')]], agg_includeDeleted = False\<rparr>)
     = [JObj [(''$count'', JStr ''total'')]] \<and>
   activeArchive (resolve (no_options\<lparr>opt_deletedField := Present (Some ''toString'')\<rparr>)) = Some Default \<and>
   pipeline (run_pre_aggregate (resolve (no_options\<lparr>opt_deletedField := Present (Some ''toString'')\<rparr>))
       \<lparr>pipeline = [JObj [(''$match'', JObj [(''name'', JStr ''John'')])]], agg_includeDeleted = False\<rparr>)
     = [JObj [(''$match'', JObj [(''name'', JStr ''John'')])]] \<and>
   pipeline (run_pre_aggregate (resolve no_options)
       \<lparr>pipeline = [JObj [(''$match'', JObj [(''$or'', JArr [JObj [(''deleted'', JBool True)]])])]],
        agg_includeDeleted = False\<rparr>)
     = [JObj [(''$match'', JObj [(''deleted'', JObj [(''$ne'', JBool True)])])],
        JObj [(''$match'', JObj [(''$or'', JArr [JObj [(''deleted'', JBool True)]])])]]"
  by (simp add: resolve_def no_options_def run_pre_aggregate_def aggregateMiddleware_def
      hasDeletedFilter_def obj_read_def has_own_def object_prototype_def match_stage_def ne_true_def)

subsection \<open>Facts about matching and execution\<close>

lemma matches_empty: "matches sem [] d"
  by (simp add: matches_def)

lemma matches_flag_true:
  "matches sem (obj_set k (JBool True) f) d =
     (obj_get d k = JBool True \<and> matches sem (obj_delete k f) d)"
  by (simp add: matches_def list_all_obj_set cond_holds_def)

lemma matches_flag_ne_true:
  "matches sem (obj_set k ne_true f) d =
     (obj_get d k \<noteq> JBool True \<and> matches sem (obj_delete k f) d)"
  by (simp add: matches_def list_all_obj_set cond_holds_def ne_true_def)

lemma find_none: "list_all (\<lambda>d. \<not> m d) st \<Longrightarrow> find m st = None"
  by (induction st) auto


subsection \<open>The helpers \<open>deleted\<close> and \<open>active\<close> under the hooks\<close>



subsection \<open>What the delete-class statics execute\<close>

lemma new_query_sel:
  "conditions (new_query k f) = f"
  "qop (new_query k f) = k"
  "includeDeleted (new_query k f) = False"
  by (simp_all add: new_query_def)

lemma no_options_given:
  "\<not> upsert JUndefined"
  "obj_assign [] [(''new'', JBool False)] = [(''new'', JBool False)]"
  "\<not> upsert (JObj [(''new'', JBool False)])"
  "\<not> returns_updated (JObj [(''new'', JBool False)])"
  by (simp_all add: upsert_def returns_updated_def has_own_def obj_assign_def)

lemma find_Some_filter: "find m st = Some d \<Longrightarrow> filter m st \<noteq> []"
  by (induction st) (auto split: if_splits)

lemma exec_deleteOne_matched:
  "matches sem f d \<Longrightarrow>
     snd (exec_call sem os (deleteOne os now (JObj f) options) (d # st))
       = apply_update (set_update (delete_update os now)) d # st"
  by (simp add: deleteOne_def on_filter_def exec_updateOne_def updates_not_hooked new_query_sel
      Let_def)

lemma exec_deleteMany_matched:
  "matches sem f d \<Longrightarrow>
     snd (exec_call sem os (deleteMany os now (JObj f) options) [d])
       = [apply_update (set_update (delete_update os now)) d]"
  by (simp add: deleteMany_def on_filter_def exec_updateMany_def updates_not_hooked new_query_sel
      Let_def)

lemma exec_deleteOne:
  "exec_call sem os (deleteOne os now (JObj f) JUndefined) st =
     (case find (matches sem f) st of
        None \<Rightarrow> (Inr (ResWrite 0 0 0), st)
      | Some d \<Rightarrow>
          (Inr (ResWrite 1 (if apply_update (set_update (delete_update os now)) d = d then 0 else 1) 0),
           update_first (matches sem f) (apply_update (set_update (delete_update os now))) st))"
  by (simp add: deleteOne_def on_filter_def exec_updateOne_def updates_not_hooked new_query_sel
      no_options_given Let_def split: option.splits)

lemma exec_deleteMany:
  "exec_call sem os (deleteMany os now (JObj f) JUndefined) st =
     (Inr (ResWrite (length (filter (matches sem f) st))
                    (length (filter (\<lambda>d. matches sem f d \<and>
                                          apply_update (set_update (delete_update os now)) d \<noteq> d) st)) 0),
      map (\<lambda>d. if matches sem f d then apply_update (set_update (delete_update os now)) d else d) st)"
  by (simp add: deleteMany_def on_filter_def exec_updateMany_def updates_not_hooked new_query_sel
      no_options_given Let_def)

lemma exec_findOneAndDelete:
  "exec_call sem os (findOneAndDelete os now (JObj f) JUndefined) st =
     (case find (matches sem (conditions (run_pre os (new_query FindOneAndUpdate f)))) st of
        None \<Rightarrow> (Inr (ResDoc JNull), st)
      | Some d \<Rightarrow>
          (Inr (ResDoc (JObj d)),
           update_first (matches sem (conditions (run_pre os (new_query FindOneAndUpdate f))))
             (apply_update (set_update (delete_update os now))) st))"
  by (simp add: findOneAndDelete_def on_filter_def exec_findOneAndUpdate_def no_options_given
      Let_def split: option.splits)

lemma exec_findByIdAndDelete:
  "exec_call sem os (findByIdAndDelete os now ident JUndefined) st =
     (case find (matches sem (conditions (run_pre os (new_query FindOneAndUpdate [(''_id'', ident)])))) st of
        None \<Rightarrow> (Inr (ResDoc JNull), st)
      | Some d \<Rightarrow>
          (Inr (ResDoc (JObj d)),
           update_first (matches sem (conditions (run_pre os (new_query FindOneAndUpdate [(''_id'', ident)]))))
             (apply_update (set_update (delete_update os now))) st))"
  by (simp add: findByIdAndDelete_def on_filter_def exec_findOneAndUpdate_def no_options_given
      Let_def split: option.splits)

lemma hooked_findOneAndUpdate:
  assumes "activeArchive os = Some Default" and "named (deletedField os)"
    and "obj_read f (key (deletedField os)) = JUndefined"
  shows "conditions (run_pre os (new_query FindOneAndUpdate f))
           = obj_set (key (deletedField os)) ne_true f"
  using assms
  by (simp add: run_pre_def hooked_iff middleware_injects new_query_sel)

lemma deleted_not_found:
  assumes "activeArchive os = Some Default" and "named (deletedField os)"
    and "obj_read f (key (deletedField os)) = JUndefined"
    and "list_all (\<lambda>d. obj_get d (key (deletedField os)) = JBool True) st"
  shows "find (matches sem (conditions (run_pre os (new_query FindOneAndUpdate f)))) st = None"
proof -
  from assms(4)
  have "list_all (\<lambda>d. \<not> matches sem (obj_set (key (deletedField os)) ne_true f) d) st"
    by (induction st) (simp_all add: matches_flag_ne_true)
  then show ?thesis
    unfolding hooked_findOneAndUpdate[OF assms(1-3)] by (rule find_none)
qed

subsection \<open>The find-and-delete statics under the policy \<open>Default\<close>\<close>

text \<open>
  Claim C5, as the code has it. Under the policy \<open>Default\<close>, \<^verbatim>\<open>findOneAndDelete\<close> and
  \<^verbatim>\<open>findByIdAndDelete\<close> run as a \<^verbatim>\<open>findOneAndUpdate\<close>, whose hook adds the condition
  \<^verbatim>\<open>{ $ne: true }\<close> on the deletion-flag field to the filter when the field has a
  name and reading the property of that name on the filter object gives
  \<^verbatim>\<open>undefined\<close>; it leaves the filter as it is when the name of the field is falsy, and
  when that reading gives another value: the filter has a top-level key of that name
  with a value other than \<^verbatim>\<open>undefined\<close>, or the name is one every object inherits a
  member for (such as \<^verbatim>\<open>toString\<close>) and the filter has no own key of that name. So
  with the added condition no document whose deletion flag is \<^verbatim>\<open>true\<close> matches:
  called without options, both statics return \<^verbatim>\<open>null\<close> on a collection of deleted
  documents and change nothing (\<^verbatim>\<open>findByIdAndDelete\<close> when the deletion-flag field is
  neither \<^verbatim>\<open>_id\<close> nor an inherited name), and a document that
  \<^verbatim>\<open>findOneAndDelete\<close> returns was in the collection with a flag other than \<^verbatim>\<open>true\<close>.
  \<^verbatim>\<open>deleteOne\<close> and \<^verbatim>\<open>deleteMany\<close> run as \<^verbatim>\<open>updateOne\<close> and \<^verbatim>\<open>updateMany\<close>, which
  have no hook: they match on the caller's filter alone, so \<^verbatim>\<open>deleteOne\<close> updates a
  first document that matches and \<^verbatim>\<open>deleteMany\<close> every document that matches,
  already deleted or not.
\<close>

theorem find_and_delete_skip_deleted:
  assumes "activeArchive os = Some Default"
  shows "findOneAndDelete os now flt options
           = ModelFindOneAndUpdate flt (set_update (delete_update os now))
               (JObj (obj_set ''new'' (JBool False) (own_entries options))) \<and>
         findByIdAndDelete os now ident options
           = ModelFindByIdAndUpdate ident (set_update (delete_update os now))
               (JObj (obj_set ''new'' (JBool False) (own_entries options))) \<and>
         (named (deletedField os) \<and> obj_read f (key (deletedField os)) = JUndefined \<longrightarrow>
            conditions (run_pre os (new_query FindOneAndUpdate f))
              = obj_set (key (deletedField os)) ne_true f \<and>
            (obj_get d (key (deletedField os)) = JBool True \<longrightarrow>
               \<not> matches sem (conditions (run_pre os (new_query FindOneAndUpdate f))) d)) \<and>
         (\<not> named (deletedField os) \<or> obj_read f (key (deletedField os)) \<noteq> JUndefined \<longrightarrow>
            run_pre os (new_query FindOneAndUpdate f) = new_query FindOneAndUpdate f) \<and>
         (obj_read f (key (deletedField os)) \<noteq> JUndefined) =
           (obj_get f (key (deletedField os)) \<noteq> JUndefined \<or>
            (\<not> has_own f (key (deletedField os)) \<and> key (deletedField os) \<in> set object_prototype)) \<and>
         (named (deletedField os) \<and> obj_read f (key (deletedField os)) = JUndefined \<and>
          list_all (\<lambda>d. obj_get d (key (deletedField os)) = JBool True) st \<longrightarrow>
            exec_call sem os (findOneAndDelete os now (JObj f) JUndefined) st = (Inr (ResDoc JNull), st)) \<and>
         (named (deletedField os) \<and> key (deletedField os) \<noteq> ''_id'' \<and>
          key (deletedField os) \<notin> set object_prototype \<and>
          list_all (\<lambda>d. obj_get d (key (deletedField os)) = JBool True) st \<longrightarrow>
            exec_call sem os (findByIdAndDelete os now ident JUndefined) st = (Inr (ResDoc JNull), st)) \<and>
         (named (deletedField os) \<and> obj_read f (key (deletedField os)) = JUndefined \<and>
          exec_call sem os (findOneAndDelete os now (JObj f) JUndefined) st = (Inr (ResDoc (JObj d')), st') \<longrightarrow>
            d' \<in> set st \<and> obj_get d' (key (deletedField os)) \<noteq> JBool True) \<and>
         run_pre os (new_query UpdateOne f) = new_query UpdateOne f \<and>
         run_pre os (new_query UpdateMany f) = new_query UpdateMany f \<and>
         (matches sem f d \<longrightarrow>
            snd (exec_call sem os (deleteOne os now (JObj f) JUndefined) (d # st))
              = apply_update (set_update (delete_update os now)) d # st) \<and>
         snd (exec_call sem os (deleteMany os now (JObj f) JUndefined) st)
           = map (\<lambda>d. if matches sem f d then apply_update (set_update (delete_update os now)) d else d) st"
proof -
  let ?k = "key (deletedField os)"
  have c0: "findOneAndDelete os now flt options
              = ModelFindOneAndUpdate flt (set_update (delete_update os now))
                  (JObj (obj_set ''new'' (JBool False) (own_entries options)))"
           "findByIdAndDelete os now ident options
              = ModelFindByIdAndUpdate ident (set_update (delete_update os now))
                  (JObj (obj_set ''new'' (JBool False) (own_entries options)))"
    by (simp_all add: findOneAndDelete_def findByIdAndDelete_def obj_assign_single)
  have c1: "named (deletedField os) \<Longrightarrow> obj_read f ?k = JUndefined \<Longrightarrow>
              conditions (run_pre os (new_query FindOneAndUpdate f)) = obj_set ?k ne_true f"
    by (rule hooked_findOneAndUpdate[OF assms])
  have c2: "named (deletedField os) \<Longrightarrow> obj_read f ?k = JUndefined \<Longrightarrow>
              obj_get d ?k = JBool True \<Longrightarrow>
              \<not> matches sem (conditions (run_pre os (new_query FindOneAndUpdate f))) d"
    by (simp add: c1 matches_flag_ne_true)
  have c3: "\<not> named (deletedField os) \<or> obj_read f ?k \<noteq> JUndefined \<Longrightarrow>
              run_pre os (new_query FindOneAndUpdate f) = new_query FindOneAndUpdate f"
    by (auto simp: run_pre_def middleware_unnamed middleware_defined new_query_sel)
  have c4: "named (deletedField os) \<Longrightarrow> obj_read f ?k = JUndefined \<Longrightarrow>
              list_all (\<lambda>d. obj_get d ?k = JBool True) st \<Longrightarrow>
              exec_call sem os (findOneAndDelete os now (JObj f) JUndefined) st = (Inr (ResDoc JNull), st)"
    by (simp add: exec_findOneAndDelete deleted_not_found[OF assms])
  have c5: "named (deletedField os) \<Longrightarrow> ?k \<noteq> ''_id'' \<Longrightarrow> ?k \<notin> set object_prototype \<Longrightarrow>
              list_all (\<lambda>d. obj_get d ?k = JBool True) st \<Longrightarrow>
              exec_call sem os (findByIdAndDelete os now ident JUndefined) st = (Inr (ResDoc JNull), st)"
    by (simp add: exec_findByIdAndDelete deleted_not_found[OF assms] obj_read_fresh has_own_def)
  have c8: "named (deletedField os) \<Longrightarrow> obj_read f ?k = JUndefined \<Longrightarrow>
              exec_call sem os (findOneAndDelete os now (JObj f) JUndefined) st = (Inr (ResDoc (JObj d')), st') \<Longrightarrow>
              d' \<in> set st \<and> obj_get d' ?k \<noteq> JBool True"
  proof -
    assume n: "named (deletedField os)" and g: "obj_read f ?k = JUndefined"
      and e: "exec_call sem os (findOneAndDelete os now (JObj f) JUndefined) st = (Inr (ResDoc (JObj d')), st')"
    from e have "find (matches sem (obj_set ?k ne_true f)) st = Some d'"
      unfolding exec_findOneAndDelete c1[OF n g] by (simp split: option.splits)
    then have "d' \<in> set st" and "matches sem (obj_set ?k ne_true f) d'"
      by (auto simp: find_Some_iff)
    then show ?thesis
      by (simp add: matches_flag_ne_true)
  qed
  have c6: "matches sem f d \<Longrightarrow>
              snd (exec_call sem os (deleteOne os now (JObj f) JUndefined) (d # st))
                = apply_update (set_update (delete_update os now)) d # st"
    by (rule exec_deleteOne_matched)
  have c7: "snd (exec_call sem os (deleteMany os now (JObj f) JUndefined) st)
              = map (\<lambda>d. if matches sem f d then apply_update (set_update (delete_update os now)) d else d) st"
    by (simp add: exec_deleteMany)
  from c0 c1 c2 c3 obj_read_defined_iff[of f ?k] c4 c5 c6 c7 c8 show ?thesis
    by (simp add: updates_not_hooked)
qed

theorem find_and_delete_skip_deleted_witness:
  "activeArchive (resolve no_options) = Some Default \<and>
   named (deletedField (resolve no_options)) \<and>
   exec_call eq_sem (resolve no_options)
       (findOneAndDelete (resolve no_options) 9 (JObj []) JUndefined)
       [[(''_id'', JNum 1), (''deleted'', JBool True)]]
     = (Inr (ResDoc JNull), [[(''_id'', JNum 1), (''deleted'', JBool True)]]) \<and>
   exec_call eq_sem (resolve no_options)
       (findByIdAndDelete (resolve no_options) 9 (JNum 1) JUndefined)
       [[(''_id'', JNum 1), (''deleted'', JBool True)]]
     = (Inr (ResDoc JNull), [[(''_id'', JNum 1), (''deleted'', JBool True)]]) \<and>
   snd (exec_call eq_sem (resolve no_options)
       (deleteOne (resolve no_options) 9 (JObj []) JUndefined)
       [[(''_id'', JNum 1), (''deleted'', JBool True)]])
     = [[(''_id'', JNum 1), (''deleted'', JBool True), (''deletedAt'', JDate 9)]]"
proof -
  let ?os = "resolve no_options"
  let ?d = "[(''_id'', JNum 1), (''deleted'', JBool True)]"
  have a: "activeArchive ?os = Some Default"
    and n: "named (deletedField ?os)"
    and g: "obj_read [] (key (deletedField ?os)) = JUndefined"
    and i: "key (deletedField ?os) \<noteq> ''_id''"
    and p: "key (deletedField ?os) \<notin> set object_prototype"
    and l: "list_all (\<lambda>d. obj_get d (key (deletedField ?os)) = JBool True) [?d]"
    by (simp_all add: resolve_no_options obj_read_def has_own_def object_prototype_def)
  have m: "matches eq_sem [] ?d"
    by (rule matches_empty)
  have u: "apply_update (set_update (delete_update ?os 9)) ?d
           = [(''_id'', JNum 1), (''deleted'', JBool True), (''deletedAt'', JDate 9)]"
    by (simp add: apply_update_def set_update_def delete_update_def obj_assign_def resolve_no_options)
  note t1 = find_and_delete_skip_deleted[OF a,
      where f = "[]" and d = ?d and sem = eq_sem and st = "[?d]" and now = 9 and ident = "JNum 1"]
  note t2 = find_and_delete_skip_deleted[OF a,
      where f = "[]" and d = ?d and sem = eq_sem and st = "[]" and now = 9 and ident = "JNum 1"]
  have r1: "exec_call eq_sem ?os (findOneAndDelete ?os 9 (JObj []) JUndefined) [?d]
              = (Inr (ResDoc JNull), [?d])"
    using t1 n g l by blast
  have r2: "exec_call eq_sem ?os (findByIdAndDelete ?os 9 (JNum 1) JUndefined) [?d]
              = (Inr (ResDoc JNull), [?d])"
    using t1 n i p l by blast
  have r3: "snd (exec_call eq_sem ?os (deleteOne ?os 9 (JObj []) JUndefined) [?d])
              = [apply_update (set_update (delete_update ?os 9)) ?d]"
    using t2 m by blast
  from a n r1 r2 r3[unfolded u] show ?thesis by blast
qed

text \<open>
  The claim as written fails where the hook adds nothing although the caller's filter
  has no condition on the field. With the name of the field \<^verbatim>\<open>undefined\<close>, and with
  the name \<^verbatim>\<open>toString\<close>, \<^verbatim>\<open>findOneAndDelete\<close> under the policy \<open>Default\<close> with an
  empty filter finds, returns and updates a document whose deletion flag is already
  \<^verbatim>\<open>true\<close>.
\<close>

theorem find_and_delete_skip_deleted_counterexample:
  "activeArchive (resolve (no_options\<lparr>opt_deletedField := Present None\<rparr>)) = Some Default \<and>
   obj_get [(''_id'', JNum 1), (''undefined'', JBool True)]
       (key (deletedField (resolve (no_options\<lparr>opt_deletedField := Present None\<rparr>))))
     = JBool True \<and>
   exec_call eq_sem (resolve (no_options\<lparr>opt_deletedField := Present None\<rparr>))
       (findOneAndDelete (resolve (no_options\<lparr>opt_deletedField := Present None\<rparr>)) 9
          (JObj []) JUndefined)
       [[(''_id'', JNum 1), (''undefined'', JBool True)]]
     = (Inr (ResDoc (JObj [(''_id'', JNum 1), (''undefined'', JBool True)])),
        [[(''_id'', JNum 1), (''undefined'', JBool True), (''deletedAt'', JDate 9)]]) \<and>
   activeArchive (resolve (no_options\<lparr>opt_deletedField := Present (Some ''toString'')\<rparr>)) = Some Default \<and>
   named (deletedField (resolve (no_options\<lparr>opt_deletedField := Present (Some ''toString'')\<rparr>))) \<and>
   obj_get [(''_id'', JNum 1), (''toString'', JBool True)]
       (key (deletedField (resolve (no_options\<lparr>opt_deletedField := Present (Some ''toString'')\<rparr>))))
     = JBool True \<and>
   exec_call eq_sem (resolve (no_options\<lparr>opt_deletedField := Present (Some ''toString'')\<rparr>))
       (findOneAndDelete (resolve (no_options\<lparr>opt_deletedField := Present (Some ''toString'')\<rparr>)) 9
          (JObj []) JUndefined)
       [[(''_id'', JNum 1), (''toString'', JBool True)]]
     = (Inr (ResDoc (JObj [(''_id'', JNum 1), (''toString'', JBool True)])),
        [[(''_id'', JNum 1), (''toString'', JBool True), (''deletedAt'', JDate 9)]])"
  by (simp add: resolve_def no_options_def findOneAndDelete_def on_filter_def
      exec_findOneAndUpdate_def run_pre_def query_hooks_def queryMiddleware_def new_query_def
      obj_read_def has_own_def object_prototype_def upsert_def returns_updated_def
      matches_def apply_update_def set_update_def delete_update_def obj_assign_def Let_def)

subsection \<open>The delete-class rewrite\<close>

lemma obj_set_twice: "obj_set k v (obj_set k v' ps) = obj_set k v ps"
  by (induction ps) auto

lemma apply_set_update: "apply_update (set_update u) d = obj_assign d u"
  by (simp add: apply_update_def set_update_def)

lemma delete_update_applied:
  "apply_update (set_update (delete_update os now)) d =
     (if enabled (deletedAt os)
      then obj_set (key (deletedAtField os)) (JDate now) (obj_set (key (deletedField os)) (JBool True) d)
      else obj_set (key (deletedField os)) (JBool True) d)"
  by (simp add: apply_set_update delete_update_def obj_assign_def obj_set_twice)

lemma delete_update_fields:
  assumes "enabled (deletedAt os) \<longrightarrow> key (deletedAtField os) \<noteq> key (deletedField os)"
  shows "delete_update os now =
           (if enabled (deletedAt os)
            then [(key (deletedField os), JBool True), (key (deletedAtField os), JDate now)]
            else [(key (deletedField os), JBool True)])"
  using assms by (auto simp: delete_update_def obj_assign_def)

lemma kept_self: "list_all2 (\<lambda>x y. y = x \<or> y = g x) st st"
  by (induction st) auto

lemma kept_update_first: "list_all2 (\<lambda>x y. y = x \<or> y = g x) st (update_first m g st)"
  by (induction st) (auto simp: kept_self)

lemma kept_map: "list_all2 (\<lambda>x y. y = x \<or> y = g x) st (map (\<lambda>d. if m d then g d else d) st)"
  by (induction st) auto

lemma keeps_documents_cases:
  "keeps_documents u st st"
  "keeps_documents u st (st @ added)"
  "keeps_documents u st (update_first m (apply_update u) st)"
  "keeps_documents u st (map (\<lambda>d. if m d then apply_update u d else d) st)"
  by (simp_all add: keeps_documents_def kept_self kept_update_first kept_map length_update_first)

lemma keeps_documents_length: "keeps_documents u st st' \<Longrightarrow> length st \<le> length st'"
  by (auto simp: keeps_documents_def dest: list_all2_lengthD)

lemma exec_call_keeps_documents:
  "keeps_documents u st (snd (exec_call sem os (ModelUpdateOne flt u options) st))"
  "keeps_documents u st (snd (exec_call sem os (ModelUpdateMany flt u options) st))"
  "keeps_documents u st (snd (exec_call sem os (ModelFindOneAndUpdate flt u options) st))"
  "keeps_documents u st (snd (exec_call sem os (ModelFindByIdAndUpdate ident u options) st))"
  by (simp_all add: on_filter_def exec_updateOne_def exec_updateMany_def exec_findOneAndUpdate_def
      keeps_documents_cases Let_def split: sum.splits option.splits)

text \<open>
  Claim C1, as the code has it. Under every policy, each of the four delete-class
  statics hands over to the update method of its kind with the caller's filter (or id)
  as it came and the update \<^verbatim>\<open>{ $set: ... }\<close> that assigns \<^verbatim>\<open>true\<close> to the deletion-flag
  field and then, when the timestamp is enabled, the current time to the timestamp
  field, and touches no other field: \<^verbatim>\<open>deleteOne\<close> and \<^verbatim>\<open>deleteMany\<close> pass the
  caller's options on, the two find-and-delete statics pass them with \<^verbatim>\<open>new\<close> set to
  \<^verbatim>\<open>false\<close>. So an updated document has the current time as its timestamp when that is
  enabled, and the flag \<^verbatim>\<open>true\<close> when the flag and the timestamp are stored under
  different names; under one name the second assignment wins. Executing the call
  removes no document, whatever the options: every document of the collection is still
  there, as it was or updated. Called without options, a find-and-delete static returns
  the matched document as the collection held it before the update (or \<^verbatim>\<open>null\<close>), and
  the collection holds the updated document in its place.
\<close>

theorem delete_statics_are_updates:
  "deleteOne os now flt options
     = ModelUpdateOne flt (set_update (delete_update os now)) options \<and>
   deleteMany os now flt options
     = ModelUpdateMany flt (set_update (delete_update os now)) options \<and>
   findOneAndDelete os now flt options
     = ModelFindOneAndUpdate flt (set_update (delete_update os now))
         (JObj (obj_set ''new'' (JBool False) (own_entries options))) \<and>
   findByIdAndDelete os now ident options
     = ModelFindByIdAndUpdate ident (set_update (delete_update os now))
         (JObj (obj_set ''new'' (JBool False) (own_entries options))) \<and>
   apply_update (set_update (delete_update os now)) d
     = (if enabled (deletedAt os)
        then obj_set (key (deletedAtField os)) (JDate now) (obj_set (key (deletedField os)) (JBool True) d)
        else obj_set (key (deletedField os)) (JBool True) d) \<and>
   ((enabled (deletedAt os) \<longrightarrow> key (deletedAtField os) \<noteq> key (deletedField os)) \<longrightarrow>
      obj_get (apply_update (set_update (delete_update os now)) d) (key (deletedField os))
        = JBool True) \<and>
   (enabled (deletedAt os) \<longrightarrow>
      obj_get (apply_update (set_update (delete_update os now)) d) (key (deletedAtField os))
        = JDate now) \<and>
   (k \<noteq> key (deletedField os) \<and> (enabled (deletedAt os) \<longrightarrow> k \<noteq> key (deletedAtField os)) \<longrightarrow>
      obj_get (apply_update (set_update (delete_update os now)) d) k = obj_get d k) \<and>
   keeps_documents (set_update (delete_update os now)) st
     (snd (exec_call sem os (deleteOne os now flt options) st)) \<and>
   keeps_documents (set_update (delete_update os now)) st
     (snd (exec_call sem os (deleteMany os now flt options) st)) \<and>
   keeps_documents (set_update (delete_update os now)) st
     (snd (exec_call sem os (findOneAndDelete os now flt options) st)) \<and>
   keeps_documents (set_update (delete_update os now)) st
     (snd (exec_call sem os (findByIdAndDelete os now ident options) st)) \<and>
   length st \<le> length (snd (exec_call sem os (deleteOne os now flt options) st)) \<and>
   length st \<le> length (snd (exec_call sem os (deleteMany os now flt options) st)) \<and>
   length st \<le> length (snd (exec_call sem os (findOneAndDelete os now flt options) st)) \<and>
   length st \<le> length (snd (exec_call sem os (findByIdAndDelete os now ident options) st)) \<and>
   exec_call sem os (findOneAndDelete os now (JObj f) JUndefined) st
     = (case find (matches sem (conditions (run_pre os (new_query FindOneAndUpdate f)))) st of
          None \<Rightarrow> (Inr (ResDoc JNull), st)
        | Some d \<Rightarrow>
            (Inr (ResDoc (JObj d)),
             update_first (matches sem (conditions (run_pre os (new_query FindOneAndUpdate f))))
               (apply_update (set_update (delete_update os now))) st)) \<and>
   exec_call sem os (findByIdAndDelete os now ident JUndefined) st
     = (case find (matches sem (conditions (run_pre os (new_query FindOneAndUpdate [(''_id'', ident)])))) st of
          None \<Rightarrow> (Inr (ResDoc JNull), st)
        | Some d \<Rightarrow>
            (Inr (ResDoc (JObj d)),
             update_first (matches sem (conditions (run_pre os (new_query FindOneAndUpdate [(''_id'', ident)]))))
               (apply_update (set_update (delete_update os now))) st))"
proof -
  let ?u = "set_update (delete_update os now)"
  have calls:
    "deleteOne os now flt options = ModelUpdateOne flt ?u options"
    "deleteMany os now flt options = ModelUpdateMany flt ?u options"
    "findOneAndDelete os now flt options
       = ModelFindOneAndUpdate flt ?u (JObj (obj_set ''new'' (JBool False) (own_entries options)))"
    "findByIdAndDelete os now ident options
       = ModelFindByIdAndUpdate ident ?u (JObj (obj_set ''new'' (JBool False) (own_entries options)))"
    by (simp_all add: deleteOne_def deleteMany_def findOneAndDelete_def findByIdAndDelete_def
        obj_assign_single)
  have fields:
    "(enabled (deletedAt os) \<longrightarrow> key (deletedAtField os) \<noteq> key (deletedField os)) \<longrightarrow>
       obj_get (apply_update ?u d) (key (deletedField os)) = JBool True"
    "enabled (deletedAt os) \<longrightarrow>
       obj_get (apply_update ?u d) (key (deletedAtField os)) = JDate now"
    "k \<noteq> key (deletedField os) \<and> (enabled (deletedAt os) \<longrightarrow> k \<noteq> key (deletedAtField os)) \<longrightarrow>
       obj_get (apply_update ?u d) k = obj_get d k"
    by (auto simp: delete_update_applied obj_get_set)
  have kept:
    "keeps_documents ?u st (snd (exec_call sem os (deleteOne os now flt options) st))"
    "keeps_documents ?u st (snd (exec_call sem os (deleteMany os now flt options) st))"
    "keeps_documents ?u st (snd (exec_call sem os (findOneAndDelete os now flt options) st))"
    "keeps_documents ?u st (snd (exec_call sem os (findByIdAndDelete os now ident options) st))"
    unfolding calls by (rule exec_call_keeps_documents)+
  note len = kept[THEN keeps_documents_length]
  show ?thesis
    using calls(1,2,3,4) delete_update_applied[of os now d] fields(1,2,3) kept len
      exec_findOneAndDelete[of sem os now f st]
      exec_findByIdAndDelete[of sem os now ident st]
    by (intro conjI) blast+
qed

theorem delete_statics_are_updates_witness:
  "key (deletedAtField (resolve no_options)) \<noteq> key (deletedField (resolve no_options)) \<and>
   findOneAndDelete (resolve no_options) 9 (JObj [(''_id'', JNum 1)]) (JObj [(''new'', JBool True)])
     = ModelFindOneAndUpdate (JObj [(''_id'', JNum 1)])
         (JObj [(''$set'', JObj [(''deleted'', JBool True), (''deletedAt'', JDate 9)])])
         (JObj [(''new'', JBool False)]) \<and>
   obj_get (apply_update (set_update (delete_update (resolve no_options) 9))
              [(''_id'', JNum 1), (''name'', JStr ''John''), (''deleted'', JBool False),
               (''deletedAt'', JNull)])
       (key (deletedField (resolve no_options))) = JBool True \<and>
   exec_call eq_sem (resolve no_options)
       (findOneAndDelete (resolve no_options) 9 (JObj [(''_id'', JNum 1)]) JUndefined)
       [[(''_id'', JNum 1), (''name'', JStr ''John''), (''deleted'', JBool False), (''deletedAt'', JNull)]]
     = (Inr (ResDoc (JObj [(''_id'', JNum 1), (''name'', JStr ''John''), (''deleted'', JBool False),
                            (''deletedAt'', JNull)])),
        [[(''_id'', JNum 1), (''name'', JStr ''John''), (''deleted'', JBool True),
          (''deletedAt'', JDate 9)]])"
proof -
  let ?os = "resolve no_options"
  let ?d = "[(''_id'', JNum 1), (''name'', JStr ''John''), (''deleted'', JBool False),
             (''deletedAt'', JNull)]"
  note t = delete_statics_are_updates[where os = ?os and now = 9 and flt = "JObj [(''_id'', JNum 1)]"
      and options = "JObj [(''new'', JBool True)]" and ident = "JNum 1" and d = ?d
      and k = "''name''" and sem = eq_sem and st = "[?d]" and f = "[(''_id'', JNum 1)]"]
  have k: "key (deletedAtField ?os) \<noteq> key (deletedField ?os)"
    by (simp add: resolve_no_options)
  have c: "findOneAndDelete ?os 9 (JObj [(''_id'', JNum 1)]) (JObj [(''new'', JBool True)])
             = ModelFindOneAndUpdate (JObj [(''_id'', JNum 1)]) (set_update (delete_update ?os 9))
                 (JObj (obj_set ''new'' (JBool False) (own_entries (JObj [(''new'', JBool True)]))))"
    using t by blast
  have g: "obj_get (apply_update (set_update (delete_update ?os 9)) ?d) (key (deletedField ?os))
             = JBool True"
    using t k by blast
  have e: "exec_call eq_sem ?os (findOneAndDelete ?os 9 (JObj [(''_id'', JNum 1)]) JUndefined) [?d]
           = (case find (matches eq_sem (conditions (run_pre ?os (new_query FindOneAndUpdate [(''_id'', JNum 1)])))) [?d] of
                None \<Rightarrow> (Inr (ResDoc JNull), [?d])
              | Some d \<Rightarrow>
                  (Inr (ResDoc (JObj d)),
                   update_first (matches eq_sem (conditions (run_pre ?os (new_query FindOneAndUpdate [(''_id'', JNum 1)]))))
                     (apply_update (set_update (delete_update ?os 9))) [?d]))"
    using t by blast
  have u: "set_update (delete_update ?os 9)
             = JObj [(''$set'', JObj [(''deleted'', JBool True), (''deletedAt'', JDate 9)])]"
    by (simp add: resolve_no_options set_update_def delete_update_def obj_assign_def)
  have q: "conditions (run_pre ?os (new_query FindOneAndUpdate [(''_id'', JNum 1)]))
             = [(''_id'', JNum 1), (''deleted'', ne_true)]"
    by (simp add: resolve_no_options run_pre_def query_hooks_def queryMiddleware_def where_obj_def
        new_query_def ne_true_def obj_read_def has_own_def object_prototype_def)
  have m: "matches eq_sem [(''_id'', JNum 1), (''deleted'', ne_true)] ?d"
    by (simp add: matches_def cond_holds_def eq_sem_def ne_true_def)
  have r: "exec_call eq_sem ?os (findOneAndDelete ?os 9 (JObj [(''_id'', JNum 1)]) JUndefined) [?d]
           = (Inr (ResDoc (JObj ?d)),
              [[(''_id'', JNum 1), (''name'', JStr ''John''), (''deleted'', JBool True),
                (''deletedAt'', JDate 9)]])"
    unfolding e q u using m by (simp add: apply_update_def obj_assign_def)
  have c': "findOneAndDelete ?os 9 (JObj [(''_id'', JNum 1)]) (JObj [(''new'', JBool True)])
              = ModelFindOneAndUpdate (JObj [(''_id'', JNum 1)])
                  (JObj [(''$set'', JObj [(''deleted'', JBool True), (''deletedAt'', JDate 9)])])
                  (JObj [(''new'', JBool False)])"
    unfolding c u by simp
  from k c' g r show ?thesis by blast
qed

text \<open>
  The claim as written fails in two ways. The options of the caller are passed on, so
  with \<^verbatim>\<open>{ returnOriginal: false }\<close> mongoose has \<^verbatim>\<open>findOneAndDelete\<close> return the
  document as it is after the update, not before. And with the timestamp stored under
  the name of the flag (\<^verbatim>\<open>deletedAtField: 'deleted'\<close>) the update assigns the time to
  that one field, so the flag of a deleted document is a date, not \<^verbatim>\<open>true\<close>.
\<close>

theorem delete_statics_are_updates_counterexample:
  "exec_call eq_sem (resolve no_options)
       (findOneAndDelete (resolve no_options) 9 (JObj [(''_id'', JNum 1)])
          (JObj [(''returnOriginal'', JBool False)]))
       [[(''_id'', JNum 1), (''name'', JStr ''John''), (''deleted'', JBool False), (''deletedAt'', JNull)]]
     = (Inr (ResDoc (JObj [(''_id'', JNum 1), (''name'', JStr ''John''), (''deleted'', JBool True),
                            (''deletedAt'', JDate 9)])),
        [[(''_id'', JNum 1), (''name'', JStr ''John''), (''deleted'', JBool True),
          (''deletedAt'', JDate 9)]]) \<and>
   enabled (deletedAt (resolve (no_options\<lparr>opt_deletedAtField := Present (Some ''deleted'')\<rparr>))) \<and>
   deleteOne (resolve (no_options\<lparr>opt_deletedAtField := Present (Some ''deleted'')\<rparr>)) 9 (JObj []) JUndefined
     = ModelUpdateOne (JObj []) (JObj [(''$set'', JObj [(''deleted'', JDate 9)])]) JUndefined \<and>
   exec_call eq_sem (resolve (no_options\<lparr>opt_deletedAtField := Present (Some ''deleted'')\<rparr>))
       (deleteOne (resolve (no_options\<lparr>opt_deletedAtField := Present (Some ''deleted'')\<rparr>)) 9
          (JObj []) JUndefined)
       [[(''_id'', JNum 1), (''deleted'', JBool False)]]
     = (Inr (ResWrite 1 1 0), [[(''_id'', JNum 1), (''deleted'', JDate 9)]])"
  by (simp add: resolve_def no_options_def findOneAndDelete_def deleteOne_def on_filter_def
      exec_findOneAndUpdate_def exec_updateOne_def run_pre_def query_hooks_def queryMiddleware_def
      new_query_def where_obj_def obj_read_def has_own_def object_prototype_def upsert_def
      returns_updated_def matches_def cond_holds_def eq_sem_def ne_true_def apply_update_def
      set_update_def delete_update_def obj_assign_def Let_def)

subsection \<open>A second delete\<close>

lemma delete_update_flag:
  "enabled (deletedAt os) \<longrightarrow> key (deletedAtField os) \<noteq> key (deletedField os) \<Longrightarrow>
     obj_get (apply_update (set_update (delete_update os now)) d) (key (deletedField os)) = JBool True"
  by (auto simp: apply_set_update delete_update_fields obj_assign_def obj_get_set)

lemma delete_update_stamp:
  "enabled (deletedAt os) \<Longrightarrow>
     obj_get (apply_update (set_update (delete_update os now)) d) (key (deletedAtField os)) = JDate now"
  by (simp add: apply_set_update delete_update_def obj_assign_def obj_get_set)

text \<open>
  Claim C10. \<^verbatim>\<open>deleteOne\<close> and \<^verbatim>\<open>deleteMany\<close> pass the caller's filter on as it
  came and run as \<^verbatim>\<open>updateOne\<close> and \<^verbatim>\<open>updateMany\<close>, for which no hook is registered
  under any policy, so they match on the caller's filter alone. With the timestamp enabled, a document a delete matches
  gets the time of that delete as its timestamp, whatever it held before. So a document
  deleted at time \<open>t1\<close> that the filter still selects is matched by a second delete at
  time \<open>t2\<close> and then holds \<open>t2\<close>: the second delete changes the collection whenever
  the two times differ. (Where the flag and the timestamp have different names, the
  document the second delete matches has the flag \<^verbatim>\<open>true\<close> already.)
\<close>

theorem second_delete_overwrites_timestamp:
  "deleteOne os t1 flt options = ModelUpdateOne flt (set_update (delete_update os t1)) options \<and>
   deleteMany os t1 flt options = ModelUpdateMany flt (set_update (delete_update os t1)) options \<and>
   run_pre os (new_query UpdateOne f) = new_query UpdateOne f \<and>
   run_pre os (new_query UpdateMany f) = new_query UpdateMany f \<and>
   (matches sem f d \<longrightarrow>
      snd (exec_call sem os (deleteOne os t1 (JObj f) options) [d])
        = [apply_update (set_update (delete_update os t1)) d] \<and>
      snd (exec_call sem os (deleteMany os t1 (JObj f) options) [d])
        = [apply_update (set_update (delete_update os t1)) d]) \<and>
   (enabled (deletedAt os) \<and> key (deletedAtField os) \<noteq> key (deletedField os) \<longrightarrow>
      obj_get (apply_update (set_update (delete_update os t1)) d) (key (deletedField os)) = JBool True) \<and>
   (enabled (deletedAt os) \<and> matches sem f d \<and>
    matches sem f (apply_update (set_update (delete_update os t1)) d) \<longrightarrow>
      map (\<lambda>x. obj_get x (key (deletedAtField os)))
          (snd (exec_call sem os (deleteOne os t1 (JObj f) options) [d])) = [JDate t1] \<and>
      map (\<lambda>x. obj_get x (key (deletedAtField os)))
          (snd (exec_call sem os (deleteOne os t2 (JObj f) options)
             (snd (exec_call sem os (deleteOne os t1 (JObj f) options) [d])))) = [JDate t2] \<and>
      map (\<lambda>x. obj_get x (key (deletedAtField os)))
          (snd (exec_call sem os (deleteMany os t2 (JObj f) options)
             (snd (exec_call sem os (deleteMany os t1 (JObj f) options) [d])))) = [JDate t2] \<and>
      (t2 \<noteq> t1 \<longrightarrow>
         snd (exec_call sem os (deleteOne os t2 (JObj f) options)
            (snd (exec_call sem os (deleteOne os t1 (JObj f) options) [d])))
           \<noteq> snd (exec_call sem os (deleteOne os t1 (JObj f) options) [d])))"
proof -
  let ?d1 = "apply_update (set_update (delete_update os t1)) d"
  let ?d2 = "apply_update (set_update (delete_update os t2)) ?d1"
  have one: "matches sem f x \<Longrightarrow>
               snd (exec_call sem os (deleteOne os t (JObj f) options) [x])
                 = [apply_update (set_update (delete_update os t)) x]" for x t
    by (rule exec_deleteOne_matched)
  have many: "matches sem f x \<Longrightarrow>
                snd (exec_call sem os (deleteMany os t (JObj f) options) [x])
                  = [apply_update (set_update (delete_update os t)) x]" for x t
    by (rule exec_deleteMany_matched)
  have again: "map (\<lambda>x. obj_get x (key (deletedAtField os))) [?d1] = [JDate t1] \<and>
               map (\<lambda>x. obj_get x (key (deletedAtField os))) [?d2] = [JDate t2] \<and>
               (t2 \<noteq> t1 \<longrightarrow> [?d2] \<noteq> [?d1])"
    if e: "enabled (deletedAt os)"
  proof -
    have s1: "obj_get ?d1 (key (deletedAtField os)) = JDate t1"
      and s2: "obj_get ?d2 (key (deletedAtField os)) = JDate t2"
      using e by (simp_all add: delete_update_stamp)
    have "t2 \<noteq> t1 \<Longrightarrow> ?d2 \<noteq> ?d1"
    proof
      assume "t2 \<noteq> t1" and "?d2 = ?d1"
      with s1 s2 show False by simp
    qed
    with s1 s2 show ?thesis by simp
  qed
  have calls:
    "deleteOne os t1 flt options = ModelUpdateOne flt (set_update (delete_update os t1)) options"
    "deleteMany os t1 flt options = ModelUpdateMany flt (set_update (delete_update os t1)) options"
    by (simp_all add: deleteOne_def deleteMany_def)
  show ?thesis
    unfolding calls using again by (simp add: updates_not_hooked one many delete_update_flag)
qed

theorem second_delete_overwrites_timestamp_witness:
  "enabled (deletedAt (resolve no_options)) \<and>
   matches eq_sem [(''name'', JStr ''John'')] [(''name'', JStr ''John''), (''deleted'', JBool False)] \<and>
   snd (exec_call eq_sem (resolve no_options)
          (deleteOne (resolve no_options) 3 (JObj [(''name'', JStr ''John'')]) JUndefined)
          [[(''name'', JStr ''John''), (''deleted'', JBool False)]])
     = [[(''name'', JStr ''John''), (''deleted'', JBool True), (''deletedAt'', JDate 3)]] \<and>
   map (\<lambda>x. obj_get x ''deletedAt'')
     (snd (exec_call eq_sem (resolve no_options)
          (deleteOne (resolve no_options) 8 (JObj [(''name'', JStr ''John'')]) JUndefined)
          (snd (exec_call eq_sem (resolve no_options)
             (deleteOne (resolve no_options) 3 (JObj [(''name'', JStr ''John'')]) JUndefined)
             [[(''name'', JStr ''John''), (''deleted'', JBool False)]]))))
     = [JDate 8]"
proof -
  let ?os = "resolve no_options"
  let ?f = "[(''name'', JStr ''John'')]"
  let ?d = "[(''name'', JStr ''John''), (''deleted'', JBool False)]"
  have e: "enabled (deletedAt ?os)"
    by (simp add: resolve_no_options)
  have k: "key (deletedAtField ?os) = ''deletedAt''"
    by (simp add: resolve_no_options)
  have u: "apply_update (set_update (delete_update ?os 3)) ?d
             = [(''name'', JStr ''John''), (''deleted'', JBool True), (''deletedAt'', JDate 3)]"
    by (simp add: apply_update_def set_update_def delete_update_def obj_assign_def resolve_no_options)
  have m: "matches eq_sem ?f ?d"
    and m': "matches eq_sem ?f (apply_update (set_update (delete_update ?os 3)) ?d)"
    unfolding u by (simp_all add: matches_def cond_holds_def eq_sem_def ne_true_def)
  note t = second_delete_overwrites_timestamp[of ?os 3 "JObj ?f" JUndefined ?f eq_sem ?d 8]
  have a: "snd (exec_call eq_sem ?os (deleteOne ?os 3 (JObj ?f) JUndefined) [?d])
             = [apply_update (set_update (delete_update ?os 3)) ?d]"
    using t m by blast
  have b: "map (\<lambda>x. obj_get x (key (deletedAtField ?os)))
             (snd (exec_call eq_sem ?os (deleteOne ?os 8 (JObj ?f) JUndefined)
                (snd (exec_call eq_sem ?os (deleteOne ?os 3 (JObj ?f) JUndefined) [?d]))))
             = [JDate 8]"
    using t e m m' by blast
  from e m a[unfolded u] b[unfolded k] show ?thesis by blast
qed

subsection \<open>The static \<open>restore\<close>\<close>

lemma obj_delete_absent: "k \<notin> fst ` set f \<Longrightarrow> obj_delete k f = f"
  by (induction f) auto

lemma restore_filter_set:
  "restore_filter os flt = obj_set (key (deletedField os)) (JBool True) (own_entries flt)"
  by (simp add: restore_filter_def obj_assign_single)

lemma restore_update_fields:
  assumes "distinct_fields os"
  shows "restore_update os =
           [(key (deletedField os), JBool False)]
           @ (if enabled (deletedAt os) then [(key (deletedAtField os), JNull)] else [])
           @ (if enabled (deletedBy os) then [(key (deletedByField os), JNull)] else [])"
  using assms by (auto simp: restore_update_def distinct_fields_def Let_def)

lemma restore_update_applied:
  assumes "distinct_fields os"
  shows "obj_get (apply_update (set_update (restore_update os)) d) (key (deletedField os)) = JBool False"
    and "enabled (deletedAt os) \<Longrightarrow>
           obj_get (apply_update (set_update (restore_update os)) d) (key (deletedAtField os)) = JNull"
    and "enabled (deletedBy os) \<Longrightarrow>
           obj_get (apply_update (set_update (restore_update os)) d) (key (deletedByField os)) = JNull"
  using assms
  by (auto simp: apply_set_update restore_update_fields obj_assign_def obj_get_set distinct_fields_def)

lemma exec_restore:
  "exec_call sem os (restore os flt) st =
     (Inr (ResWrite (length (filter (matches sem (restore_filter os flt)) st))
                    (length (filter (\<lambda>d. matches sem (restore_filter os flt) d \<and>
                                          apply_update (set_update (restore_update os)) d \<noteq> d) st)) 0),
      map (\<lambda>d. if matches sem (restore_filter os flt) d
                then apply_update (set_update (restore_update os)) d else d) st)"
  by (simp add: restore_def on_filter_def exec_updateMany_def updates_not_hooked new_query_sel
      no_options_given Let_def)

lemma filter_none: "list_all (\<lambda>d. \<not> m d) st \<Longrightarrow> filter m st = []"
  by (induction st) auto

lemma map_none: "list_all (\<lambda>d. \<not> m d) st \<Longrightarrow> map (\<lambda>d. if m d then g d else d) st = st"
  by (induction st) auto

text \<open>
  Claim C3, as the code has it. \<^verbatim>\<open>restore(filter)\<close> is one \<^verbatim>\<open>updateMany\<close>. Its match
  condition is the caller's filter with the key of the deletion-flag field set to
  \<^verbatim>\<open>true\<close>: a document matches exactly when its deletion flag is \<^verbatim>\<open>true\<close> and it meets
  the caller's conditions on the other fields. For a filter without that key this is
  the caller's filter together with flag \<^verbatim>\<open>== true\<close>; a condition the caller put on
  the deletion-flag field itself is replaced, not kept. So a document whose flag is not
  \<^verbatim>\<open>true\<close> is never modified. Each matched document gets the flag \<^verbatim>\<open>false\<close> and, for
  each enabled feature, the timestamp and the actor \<^verbatim>\<open>null\<close>. The call returns the counts
  of the bulk update, never an error; when nothing matches they are zero and the
  collection is unchanged. The values \<^verbatim>\<open>false\<close> and \<^verbatim>\<open>null\<close> are those of a
  configuration whose enabled fields have different names: the update assigns the flag,
  then the timestamp, then the actor, and under one name the last assignment wins.
\<close>

theorem restore_static_updates_deleted:
  "restore os flt
           = ModelUpdateMany (JObj (obj_set (key (deletedField os)) (JBool True) (own_entries flt)))
               (set_update (restore_update os)) JUndefined \<and>
         matches sem (restore_filter os flt) d
           = (obj_get d (key (deletedField os)) = JBool True \<and>
              matches sem (obj_delete (key (deletedField os)) (own_entries flt)) d) \<and>
         (key (deletedField os) \<notin> fst ` set (own_entries flt) \<longrightarrow>
            matches sem (restore_filter os flt) d
              = (matches sem (own_entries flt) d \<and> obj_get d (key (deletedField os)) = JBool True)) \<and>
         exec_call sem os (restore os flt) st
           = (Inr (ResWrite (length (filter (matches sem (restore_filter os flt)) st))
                            (length (filter (\<lambda>d. matches sem (restore_filter os flt) d \<and>
                                       apply_update (set_update (restore_update os)) d \<noteq> d) st)) 0),
              map (\<lambda>d. if obj_get d (key (deletedField os)) = JBool True \<and>
                          matches sem (obj_delete (key (deletedField os)) (own_entries flt)) d
                        then apply_update (set_update (restore_update os)) d else d) st) \<and>
         (list_all (\<lambda>d. \<not> matches sem (restore_filter os flt) d) st \<longrightarrow>
            exec_call sem os (restore os flt) st = (Inr (ResWrite 0 0 0), st)) \<and>
         (distinct_fields os \<longrightarrow>
            obj_get (apply_update (set_update (restore_update os)) d) (key (deletedField os)) = JBool False \<and>
            (enabled (deletedAt os) \<longrightarrow>
               obj_get (apply_update (set_update (restore_update os)) d) (key (deletedAtField os)) = JNull) \<and>
            (enabled (deletedBy os) \<longrightarrow>
               obj_get (apply_update (set_update (restore_update os)) d) (key (deletedByField os)) = JNull))"
proof -
  let ?k = "key (deletedField os)"
  have m: "matches sem (restore_filter os flt) x
             = (obj_get x ?k = JBool True \<and> matches sem (obj_delete ?k (own_entries flt)) x)" for x
    by (simp add: restore_filter_set matches_flag_true)
  have c1: "restore os flt
              = ModelUpdateMany (JObj (obj_set ?k (JBool True) (own_entries flt)))
                  (set_update (restore_update os)) JUndefined"
    by (simp add: restore_def restore_filter_set)
  have c3: "?k \<notin> fst ` set (own_entries flt) \<Longrightarrow>
              matches sem (restore_filter os flt) d
                = (matches sem (own_entries flt) d \<and> obj_get d ?k = JBool True)"
    by (auto simp: m obj_delete_absent)
  have c4: "exec_call sem os (restore os flt) st
              = (Inr (ResWrite (length (filter (matches sem (restore_filter os flt)) st))
                               (length (filter (\<lambda>d. matches sem (restore_filter os flt) d \<and>
                                          apply_update (set_update (restore_update os)) d \<noteq> d) st)) 0),
                 map (\<lambda>d. if obj_get d ?k = JBool True \<and>
                             matches sem (obj_delete ?k (own_entries flt)) d
                           then apply_update (set_update (restore_update os)) d else d) st)"
    unfolding exec_restore by (simp add: m)
  have c5: "list_all (\<lambda>d. \<not> matches sem (restore_filter os flt) d) st \<Longrightarrow>
              exec_call sem os (restore os flt) st = (Inr (ResWrite 0 0 0), st)"
  proof -
    assume n: "list_all (\<lambda>d. \<not> matches sem (restore_filter os flt) d) st"
    then have "list_all (\<lambda>d. \<not> (matches sem (restore_filter os flt) d \<and>
                 apply_update (set_update (restore_update os)) d \<noteq> d)) st"
      by (induction st) auto
    with n show ?thesis
      unfolding exec_restore by (simp add: filter_none map_none)
  qed
  from c1 m[of d] c3 c4 c5 restore_update_applied[of os d]
  show ?thesis by blast
qed

theorem restore_static_updates_deleted_witness:
  "distinct_fields (resolve no_options) \<and>
   restore (resolve no_options) (JObj [(''name'', JStr ''John'')])
     = ModelUpdateMany (JObj [(''name'', JStr ''John''), (''deleted'', JBool True)])
         (JObj [(''$set'', JObj [(''deleted'', JBool False), (''deletedAt'', JNull)])]) JUndefined \<and>
   exec_call eq_sem (resolve no_options) (restore (resolve no_options) (JObj [(''name'', JStr ''John'')]))
       [[(''name'', JStr ''John''), (''deleted'', JBool True), (''deletedAt'', JDate 3)],
        [(''name'', JStr ''John''), (''deleted'', JBool False), (''deletedAt'', JNull)],
        [(''name'', JStr ''Jane''), (''deleted'', JBool True), (''deletedAt'', JDate 4)]]
     = (Inr (ResWrite 1 1 0),
        [[(''name'', JStr ''John''), (''deleted'', JBool False), (''deletedAt'', JNull)],
         [(''name'', JStr ''John''), (''deleted'', JBool False), (''deletedAt'', JNull)],
         [(''name'', JStr ''Jane''), (''deleted'', JBool True), (''deletedAt'', JDate 4)]]) \<and>
   exec_call eq_sem (resolve no_options) (restore (resolve no_options) (JObj [(''name'', JStr ''John'')]))
       [[(''name'', JStr ''John''), (''deleted'', JBool False), (''deletedAt'', JNull)]]
     = (Inr (ResWrite 0 0 0), [[(''name'', JStr ''John''), (''deleted'', JBool False), (''deletedAt'', JNull)]])"
proof -
  let ?os = "resolve no_options"
  let ?flt = "JObj [(''name'', JStr ''John'')]"
  let ?a = "[(''name'', JStr ''John''), (''deleted'', JBool True), (''deletedAt'', JDate 3)]"
  let ?b = "[(''name'', JStr ''John''), (''deleted'', JBool False), (''deletedAt'', JNull)]"
  let ?c = "[(''name'', JStr ''Jane''), (''deleted'', JBool True), (''deletedAt'', JDate 4)]"
  have h: "distinct_fields ?os"
    by (simp add: distinct_fields_def resolve_no_options)
  have u: "set_update (restore_update ?os)
             = JObj [(''$set'', JObj [(''deleted'', JBool False), (''deletedAt'', JNull)])]"
    by (simp add: set_update_def restore_update_def resolve_no_options)
  have f: "restore_filter ?os ?flt = [(''name'', JStr ''John''), (''deleted'', JBool True)]"
    by (simp add: restore_filter_def obj_assign_def resolve_no_options)
  have k: "key (deletedField ?os) = ''deleted''"
    by (simp add: resolve_no_options)
  have n: "list_all (\<lambda>d. \<not> matches eq_sem (restore_filter ?os ?flt) d) [?b]"
    unfolding f by (simp add: matches_def cond_holds_def eq_sem_def ne_true_def)
  note t1 = restore_static_updates_deleted[of ?os ?flt eq_sem ?a "[?a, ?b, ?c]"]
  note t2 = restore_static_updates_deleted[of ?os ?flt eq_sem ?a "[?b]"]
  have r1: "restore ?os ?flt
              = ModelUpdateMany (JObj (obj_set (key (deletedField ?os)) (JBool True) (own_entries ?flt)))
                  (set_update (restore_update ?os)) JUndefined"
    using t1 by blast
  have r2: "exec_call eq_sem ?os (restore ?os ?flt) [?a, ?b, ?c]
              = (Inr (ResWrite (length (filter (matches eq_sem (restore_filter ?os ?flt)) [?a, ?b, ?c]))
                     (length (filter (\<lambda>d. matches eq_sem (restore_filter ?os ?flt) d \<and>
                                apply_update (set_update (restore_update ?os)) d \<noteq> d) [?a, ?b, ?c])) 0),
                 map (\<lambda>d. if obj_get d (key (deletedField ?os)) = JBool True \<and>
                             matches eq_sem (obj_delete (key (deletedField ?os)) (own_entries ?flt)) d
                           then apply_update (set_update (restore_update ?os)) d else d) [?a, ?b, ?c])"
    using t1 by blast
  have r3: "exec_call eq_sem ?os (restore ?os ?flt) [?b] = (Inr (ResWrite 0 0 0), [?b])"
    using t2 n by blast
  have e1: "restore ?os ?flt
              = ModelUpdateMany (JObj [(''name'', JStr ''John''), (''deleted'', JBool True)])
                  (JObj [(''$set'', JObj [(''deleted'', JBool False), (''deletedAt'', JNull)])]) JUndefined"
    unfolding r1 u k by simp
  have e2: "exec_call eq_sem ?os (restore ?os ?flt) [?a, ?b, ?c]
              = (Inr (ResWrite 1 1 0), [?b, ?b, ?c])"
    unfolding r2 u k f
    by (simp add: matches_def cond_holds_def eq_sem_def ne_true_def apply_update_def obj_assign_def)
  from h e1 e2 r3 show ?thesis by blast
qed

text \<open>
  The claim as written fails where the caller's filter has a condition on the
  deletion-flag field: \<^verbatim>\<open>restore({ deleted: { $ne: true } })\<close> asks for documents that
  are not deleted, so its intersection with flag \<^verbatim>\<open>== true\<close> is empty; the static
  replaces the condition and restores a deleted document that the caller's filter does
  not match. It also fails for a timestamp stored under the name of the flag
  (\<^verbatim>\<open>deletedAtField: 'deleted'\<close>): the update is \<^verbatim>\<open>{ $set: { deleted: null } }\<close>, and
  the flag of a restored document is \<^verbatim>\<open>null\<close>, not \<^verbatim>\<open>false\<close>.
\<close>

theorem restore_static_updates_deleted_counterexample:
  "\<not> matches eq_sem (own_entries (JObj [(''deleted'', JObj [(''$ne'', JBool True)])]))
       [(''name'', JStr ''John''), (''deleted'', JBool True), (''deletedAt'', JDate 3)] \<and>
   matches eq_sem (restore_filter (resolve no_options) (JObj [(''deleted'', JObj [(''$ne'', JBool True)])]))
       [(''name'', JStr ''John''), (''deleted'', JBool True), (''deletedAt'', JDate 3)] \<and>
   exec_call eq_sem (resolve no_options)
       (restore (resolve no_options) (JObj [(''deleted'', JObj [(''$ne'', JBool True)])]))
       [[(''name'', JStr ''John''), (''deleted'', JBool True), (''deletedAt'', JDate 3)]]
     = (Inr (ResWrite 1 1 0),
        [[(''name'', JStr ''John''), (''deleted'', JBool False), (''deletedAt'', JNull)]]) \<and>
   enabled (deletedAt (resolve (no_options\<lparr>opt_deletedAtField := Present (Some ''deleted'')\<rparr>))) \<and>
   restore (resolve (no_options\<lparr>opt_deletedAtField := Present (Some ''deleted'')\<rparr>)) (JObj [])
     = ModelUpdateMany (JObj [(''deleted'', JBool True)])
         (JObj [(''$set'', JObj [(''deleted'', JNull)])]) JUndefined \<and>
   exec_call eq_sem (resolve (no_options\<lparr>opt_deletedAtField := Present (Some ''deleted'')\<rparr>))
       (restore (resolve (no_options\<lparr>opt_deletedAtField := Present (Some ''deleted'')\<rparr>)) (JObj []))
       [[(''name'', JStr ''John''), (''deleted'', JBool True)]]
     = (Inr (ResWrite 1 1 0), [[(''name'', JStr ''John''), (''deleted'', JNull)]])"
  by (simp add: resolve_def no_options_def restore_def restore_filter_def restore_update_def
      set_update_def on_filter_def exec_updateMany_def run_pre_def query_hooks_def new_query_def
      upsert_def matches_def cond_holds_def eq_sem_def ne_true_def apply_update_def obj_assign_def
      Let_def)

subsection \<open>The invariant of the timestamp\<close>

lemma fold_defaults_get:
  "obj_get (fold (\<lambda>k d. if obj_get d k = JUndefined
                          then obj_set k (member (obj_get schema k) ''default'') d else d) ks doc) k
     = (if obj_get doc k \<noteq> JUndefined then obj_get doc k
        else if k \<in> set ks then member (obj_get schema k) ''default''
        else JUndefined)"
proof (induction ks arbitrary: doc)
  case Nil
  show ?case by simp
next
  case (Cons a ks)
  show ?case
    by (simp add: Cons.IH obj_get_set)
qed

lemma new_document_get:
  "obj_get doc k = JUndefined \<Longrightarrow>
     obj_get (new_document schema doc) k = member (obj_get schema k) ''default''"
  unfolding new_document_def fold_defaults_get
  using obj_get_absent[of k schema] by auto

lemma schema_defaults:
  assumes "distinct_fields os"
  shows "member (obj_get (Paranoia_schema os schema) (key (deletedField os))) ''default'' = JBool False"
    and "enabled (deletedAt os) \<Longrightarrow>
           member (obj_get (Paranoia_schema os schema) (key (deletedAtField os))) ''default'' = JNull"
  using assms
  by (auto simp: Paranoia_schema_def schema_add_def obj_assign_single obj_get_set Let_def
      distinct_fields_def obj_assign_def deletedByFieldType_def)

lemma restore_document_fields:
  assumes "distinct_fields os"
  shows "obj_get (restore_document os d) (key (deletedField os)) = JBool False"
    and "enabled (deletedAt os) \<Longrightarrow> obj_get (restore_document os d) (key (deletedAtField os)) = JNull"
    and "enabled (deletedBy os) \<Longrightarrow> obj_get (restore_document os d) (key (deletedByField os)) = JNull"
  using assms
  by (auto simp: restore_document_def obj_get_set Let_def distinct_fields_def)

lemma list_all_update_first:
  "list_all P xs \<Longrightarrow> (\<And>x. P (g x)) \<Longrightarrow> list_all P (update_first m g xs)"
  by (induction xs) auto

lemma list_all_map_if:
  "list_all P xs \<Longrightarrow> (\<And>x. P (g x)) \<Longrightarrow> list_all P (map (\<lambda>x. if m x then g x else x) xs)"
  by (induction xs) auto

lemma exec_call_keeps:
  assumes "list_all P st" and "\<And>d. P (apply_update u d)"
  shows "list_all P (snd (exec_call sem os (ModelUpdateOne flt u options) st))"
    and "list_all P (snd (exec_call sem os (ModelUpdateMany flt u options) st))"
    and "list_all P (snd (exec_call sem os (ModelFindOneAndUpdate flt u options) st))"
    and "list_all P (snd (exec_call sem os (ModelFindByIdAndUpdate ident u options) st))"
  using assms
  by (simp_all add: on_filter_def exec_updateOne_def exec_updateMany_def exec_findOneAndUpdate_def
      list_all_update_first list_all_map_if Let_def split: sum.splits option.splits)

lemma list_all_save: "list_all P st \<Longrightarrow> P doc \<Longrightarrow> list_all P (save doc st)"
  by (induction st) (auto simp: save_def)

text \<open>
  Claim C8, as the code has it. With the timestamp enabled and the enabled fields (the
  flag, the timestamp, and the actor when enabled) stored under different names, the
  timestamp of a document is non-null exactly when its deletion flag is \<^verbatim>\<open>true\<close>:
  \<^item> in a new document that is given no value for the flag and none for the timestamp,
    and so takes the defaults of the schema: the flag \<^verbatim>\<open>false\<close> and the timestamp
    \<^verbatim>\<open>null\<close>;
  \<^item> in every document a delete-class rewrite updates, where the flag is \<^verbatim>\<open>true\<close>
    and the timestamp the time of the call;
  \<^item> in every document the instance method or the static \<^verbatim>\<open>restore\<close> updates, where
    the flag is \<^verbatim>\<open>false\<close> and the timestamp \<^verbatim>\<open>null\<close>.
  So a collection in which it holds of every document keeps it through each of the four
  delete-class statics (whatever their options: a document an upsert adds has the update
  applied), the static \<^verbatim>\<open>restore\<close>, and the instance \<^verbatim>\<open>restore\<close> followed by
  \<^verbatim>\<open>save\<close>.
\<close>

theorem timestamp_iff_flag_invariant:
  assumes "enabled (deletedAt os)" and "distinct_fields os"
  shows "(obj_get doc (key (deletedField os)) = JUndefined \<and>
          obj_get doc (key (deletedAtField os)) = JUndefined \<longrightarrow>
            obj_get (new_document (Paranoia_schema os schema) doc) (key (deletedField os)) = JBool False \<and>
            obj_get (new_document (Paranoia_schema os schema) doc) (key (deletedAtField os)) = JNull \<and>
            stamp_inv os (new_document (Paranoia_schema os schema) doc)) \<and>
         obj_get (apply_update (set_update (delete_update os now)) d) (key (deletedField os)) = JBool True \<and>
         obj_get (apply_update (set_update (delete_update os now)) d) (key (deletedAtField os)) = JDate now \<and>
         stamp_inv os (apply_update (set_update (delete_update os now)) d) \<and>
         obj_get (restore_document os d) (key (deletedField os)) = JBool False \<and>
         obj_get (restore_document os d) (key (deletedAtField os)) = JNull \<and>
         stamp_inv os (restore_document os d) \<and>
         obj_get (apply_update (set_update (restore_update os)) d) (key (deletedField os)) = JBool False \<and>
         obj_get (apply_update (set_update (restore_update os)) d) (key (deletedAtField os)) = JNull \<and>
         stamp_inv os (apply_update (set_update (restore_update os)) d) \<and>
         (list_all (stamp_inv os) st \<longrightarrow>
            list_all (stamp_inv os) (snd (exec_call sem os (deleteOne os now flt options) st)) \<and>
            list_all (stamp_inv os) (snd (exec_call sem os (deleteMany os now flt options) st)) \<and>
            list_all (stamp_inv os) (snd (exec_call sem os (findOneAndDelete os now flt options) st)) \<and>
            list_all (stamp_inv os) (snd (exec_call sem os (findByIdAndDelete os now ident options) st)) \<and>
            list_all (stamp_inv os) (snd (exec_call sem os (restore os flt) st)) \<and>
            list_all (stamp_inv os) (save (restore_document os d) st))"
proof -
  let ?k = "key (deletedField os)" and ?ka = "key (deletedAtField os)"
  have ne: "?ka \<noteq> ?k"
    using assms by (simp add: distinct_fields_def)
  have del: "obj_get (apply_update (set_update (delete_update os now)) x) ?k = JBool True"
            "obj_get (apply_update (set_update (delete_update os now)) x) ?ka = JDate now" for x
    using assms(1) ne
    by (simp_all add: apply_set_update delete_update_fields obj_assign_def obj_get_set)
  then have del_inv: "stamp_inv os (apply_update (set_update (delete_update os now)) x)" for x
    by (simp add: stamp_inv_def)
  have rd: "obj_get (restore_document os x) ?k = JBool False"
           "obj_get (restore_document os x) ?ka = JNull" for x
    using assms by (simp_all add: restore_document_fields)
  then have rd_inv: "stamp_inv os (restore_document os x)" for x
    by (simp add: stamp_inv_def)
  have ru: "obj_get (apply_update (set_update (restore_update os)) x) ?k = JBool False"
           "obj_get (apply_update (set_update (restore_update os)) x) ?ka = JNull" for x
    using assms by (simp_all add: restore_update_applied)
  then have ru_inv: "stamp_inv os (apply_update (set_update (restore_update os)) x)" for x
    by (simp add: stamp_inv_def)
  have nd: "obj_get (new_document (Paranoia_schema os schema) doc) ?k = JBool False \<and>
            obj_get (new_document (Paranoia_schema os schema) doc) ?ka = JNull \<and>
            stamp_inv os (new_document (Paranoia_schema os schema) doc)"
    if "obj_get doc ?k = JUndefined" and "obj_get doc ?ka = JUndefined"
    using that assms by (simp add: new_document_get schema_defaults stamp_inv_def)
  have st: "list_all (stamp_inv os) (snd (exec_call sem os (deleteOne os now flt options) st)) \<and>
            list_all (stamp_inv os) (snd (exec_call sem os (deleteMany os now flt options) st)) \<and>
            list_all (stamp_inv os) (snd (exec_call sem os (findOneAndDelete os now flt options) st)) \<and>
            list_all (stamp_inv os) (snd (exec_call sem os (findByIdAndDelete os now ident options) st)) \<and>
            list_all (stamp_inv os) (snd (exec_call sem os (restore os flt) st)) \<and>
            list_all (stamp_inv os) (save (restore_document os d) st)"
    if a: "list_all (stamp_inv os) st"
    by (simp add: deleteOne_def deleteMany_def findOneAndDelete_def findByIdAndDelete_def restore_def
        exec_call_keeps[OF a del_inv] exec_call_keeps(2)[OF a ru_inv] list_all_save[OF a rd_inv]
        del: exec_call.simps)
  from nd del del_inv rd rd_inv ru ru_inv st show ?thesis
    by blast
qed

theorem timestamp_iff_flag_invariant_witness:
  "enabled (deletedAt (resolve no_options)) \<and>
   distinct_fields (resolve no_options) \<and>
   new_document (Paranoia_schema (resolve no_options) [(''name'', JObj [(''type'', JStr ''String'')])])
       [(''name'', JStr ''John'')]
     = [(''name'', JStr ''John''), (''deleted'', JBool False), (''deletedAt'', JNull)] \<and>
   stamp_inv (resolve no_options)
     (new_document (Paranoia_schema (resolve no_options) [(''name'', JObj [(''type'', JStr ''String'')])])
        [(''name'', JStr ''John'')]) \<and>
   list_all (stamp_inv (resolve no_options))
     [[(''name'', JStr ''John''), (''deleted'', JBool False), (''deletedAt'', JNull)]] \<and>
   snd (exec_call eq_sem (resolve no_options)
          (deleteMany (resolve no_options) 7 (JObj []) JUndefined)
          [[(''name'', JStr ''John''), (''deleted'', JBool False), (''deletedAt'', JNull)]])
     = [[(''name'', JStr ''John''), (''deleted'', JBool True), (''deletedAt'', JDate 7)]] \<and>
   list_all (stamp_inv (resolve no_options))
     (snd (exec_call eq_sem (resolve no_options)
          (deleteMany (resolve no_options) 7 (JObj []) JUndefined)
          [[(''name'', JStr ''John''), (''deleted'', JBool False), (''deletedAt'', JNull)]]))"
proof -
  let ?os = "resolve no_options"
  let ?schema = "[(''name'', JObj [(''type'', JStr ''String'')])]"
  let ?doc = "[(''name'', JStr ''John'')]"
  let ?st = "[[(''name'', JStr ''John''), (''deleted'', JBool False), (''deletedAt'', JNull)]]"
  have e: "enabled (deletedAt ?os)" and h: "distinct_fields ?os"
    by (simp_all add: distinct_fields_def resolve_no_options)
  have g: "obj_get ?doc (key (deletedField ?os)) = JUndefined"
          "obj_get ?doc (key (deletedAtField ?os)) = JUndefined"
    by (simp_all add: resolve_no_options)
  have i: "list_all (stamp_inv ?os) ?st"
    by (simp add: stamp_inv_def resolve_no_options)
  note t = timestamp_iff_flag_invariant[OF e h, of ?doc ?schema 7 ?doc ?st eq_sem "JObj []" JUndefined JNull]
  have w1: "stamp_inv ?os (new_document (Paranoia_schema ?os ?schema) ?doc)"
    using t g by blast
  have w2: "list_all (stamp_inv ?os)
              (snd (exec_call eq_sem ?os (deleteMany ?os 7 (JObj []) JUndefined) ?st))"
    using t i by blast
  have n: "new_document (Paranoia_schema ?os ?schema) ?doc
             = [(''name'', JStr ''John''), (''deleted'', JBool False), (''deletedAt'', JNull)]"
    by (simp add: new_document_def Paranoia_schema_def schema_add_def obj_assign_def
        resolve_no_options Let_def)
  have x: "snd (exec_call eq_sem ?os (deleteMany ?os 7 (JObj []) JUndefined) ?st)
             = [[(''name'', JStr ''John''), (''deleted'', JBool True), (''deletedAt'', JDate 7)]]"
    by (simp add: exec_deleteMany matches_empty apply_update_def set_update_def delete_update_def
        obj_assign_def resolve_no_options)
  from e h n w1 i x w2 show ?thesis by blast
qed

text \<open>
  The claim as written, for every new document, fails for one that is created with a
  flag of its own, as the deleted users of the plugin's tests are
  (\<^verbatim>\<open>create({ name: 'Deleted User', ..., deleted: true })\<close>): it keeps its flag, takes
  the default \<^verbatim>\<open>null\<close> as its timestamp, and the invariant does not hold of it. And
  the claim as written, for every configuration with the timestamp enabled, fails for
  a timestamp stored under the name of the flag (\<^verbatim>\<open>deletedAtField: 'deleted'\<close>): a
  new document holds \<^verbatim>\<open>null\<close> in that field and meets the invariant; the delete-class
  rewrite puts the time there, so the timestamp is non-null and the flag is not
  \<^verbatim>\<open>true\<close>.
\<close>

theorem timestamp_iff_flag_invariant_counterexample:
  "enabled (deletedAt (resolve no_options)) \<and>
   distinct_fields (resolve no_options) \<and>
   new_document (Paranoia_schema (resolve no_options) [(''name'', JObj [(''type'', JStr ''String'')])])
       [(''name'', JStr ''Deleted User''), (''deleted'', JBool True)]
     = [(''name'', JStr ''Deleted User''), (''deleted'', JBool True), (''deletedAt'', JNull)] \<and>
   \<not> stamp_inv (resolve no_options)
       (new_document (Paranoia_schema (resolve no_options) [(''name'', JObj [(''type'', JStr ''String'')])])
          [(''name'', JStr ''Deleted User''), (''deleted'', JBool True)]) \<and>
   enabled (deletedAt (resolve (no_options\<lparr>opt_deletedAtField := Present (Some ''deleted'')\<rparr>))) \<and>
   new_document (Paranoia_schema (resolve (no_options\<lparr>opt_deletedAtField := Present (Some ''deleted'')\<rparr>))
                   [(''name'', JObj [(''type'', JStr ''String'')])])
       [(''name'', JStr ''John'')]
     = [(''name'', JStr ''John''), (''deleted'', JNull)] \<and>
   stamp_inv (resolve (no_options\<lparr>opt_deletedAtField := Present (Some ''deleted'')\<rparr>))
     [(''name'', JStr ''John''), (''deleted'', JNull)] \<and>
   snd (exec_call eq_sem (resolve (no_options\<lparr>opt_deletedAtField := Present (Some ''deleted'')\<rparr>))
          (deleteOne (resolve (no_options\<lparr>opt_deletedAtField := Present (Some ''deleted'')\<rparr>)) 9
             (JObj []) JUndefined)
          [[(''name'', JStr ''John''), (''deleted'', JNull)]])
     = [[(''name'', JStr ''John''), (''deleted'', JDate 9)]] \<and>
   \<not> stamp_inv (resolve (no_options\<lparr>opt_deletedAtField := Present (Some ''deleted'')\<rparr>))
       [(''name'', JStr ''John''), (''deleted'', JDate 9)]"
  by (simp add: new_document_def Paranoia_schema_def schema_add_def obj_assign_def
      resolve_def no_options_def distinct_fields_def stamp_inv_def deleteOne_def on_filter_def
      exec_updateOne_def run_pre_def query_hooks_def new_query_def matches_def apply_update_def
      set_update_def delete_update_def Let_def)

end
